theory Spec2Isabelle
  imports Main
begin

section \<open>Python values\<close>

text \<open>
  The values that travel through \<^verbatim>\<open>app.py\<close> and \<^verbatim>\<open>server.py\<close>. A \<open>json\<close> value is
  what \<^verbatim>\<open>json.loads\<close> produces and what a tool schema or a search response holds; a Python
  \<^verbatim>\<open>dict\<close> with string keys is an association list (insertion order, keys distinct).
  A float is kept as mantissa and exponent (\<open>m * 2 ^ e\<close>), infinity or NaN: the code only
  asks whether it is zero. A \<open>char\<close> stands for one code point below 256.
\<close>

datatype pyfloat = Finite int int | Infinity bool | NaN

datatype json =
    JNull
  | JBool bool
  | JInt int
  | JFloat pyfloat
  | JStr string
  | JArr "json list"
  | JObj "(string \<times> json) list"

type_synonym dict = "(string \<times> json) list"

text \<open>
  A content item returned by \<^verbatim>\<open>call_tool\<close> is an arbitrary Python object: a plain value,
  a \<^verbatim>\<open>bytes\<close> blob, or an instance of a class (module, class name, instance attributes
  as found in \<^verbatim>\<open>__dict__\<close>).
\<close>

datatype pyval =
    J json
  | Bytes "nat list"
  | Object string string "(string \<times> pyval) list"

datatype exc_class =
    JSONDecodeError | ValueError | TypeError | AttributeError | TavilySearchError | OtherException

text \<open>An exception is its class and its message, \<^verbatim>\<open>str(e)\<close>.\<close>

datatype py_exception = Exc exc_class string

fun exc_str :: "py_exception \<Rightarrow> string" where
  "exc_str (Exc c msg) = msg"

fun exc_class_of :: "py_exception \<Rightarrow> exc_class" where
  "exc_class_of (Exc c msg) = c"

text \<open>\<^verbatim>\<open>isinstance(e, C)\<close>: \<^verbatim>\<open>json.JSONDecodeError\<close> is a subclass of \<^verbatim>\<open>ValueError\<close>.\<close>

definition isinstance_exc :: "py_exception \<Rightarrow> exc_class \<Rightarrow> bool" where
  "isinstance_exc e c =
     (exc_class_of e = c \<or> (exc_class_of e = JSONDecodeError \<and> c = ValueError))"

definition apostrophe :: string where
  "apostrophe = [CHR 0x27]"

text \<open>Truthiness, as \<^verbatim>\<open>not x\<close> and \<^verbatim>\<open>if x\<close> test it.\<close>

fun float_is_zero :: "pyfloat \<Rightarrow> bool" where
  "float_is_zero (Finite m e) = (m = 0)"
| "float_is_zero (Infinity s) = False"
| "float_is_zero NaN = False"

fun truthy :: "json \<Rightarrow> bool" where
  "truthy JNull = False"
| "truthy (JBool b) = b"
| "truthy (JInt n) = (n \<noteq> 0)"
| "truthy (JFloat f) = (\<not> float_is_zero f)"
| "truthy (JStr s) = (s \<noteq> [])"
| "truthy (JArr xs) = (xs \<noteq> [])"
| "truthy (JObj d) = (d \<noteq> [])"

text \<open>The name of a value's type, and \<^verbatim>\<open>f"{type(x)}"\<close>.\<close>

fun json_type_name :: "json \<Rightarrow> string" where
  "json_type_name JNull = ''NoneType''"
| "json_type_name (JBool b) = ''bool''"
| "json_type_name (JInt n) = ''int''"
| "json_type_name (JFloat f) = ''float''"
| "json_type_name (JStr s) = ''str''"
| "json_type_name (JArr xs) = ''list''"
| "json_type_name (JObj d) = ''dict''"

fun class_name :: "pyval \<Rightarrow> string" where
  "class_name (J v) = json_type_name v"
| "class_name (Bytes b) = ''bytes''"
| "class_name (Object m c attrs) = c"

fun qualified_name :: "pyval \<Rightarrow> string" where
  "qualified_name (J v) = json_type_name v"
| "qualified_name (Bytes b) = ''bytes''"
| "qualified_name (Object m c attrs) = m @ ''.'' @ c"

definition type_repr :: "pyval \<Rightarrow> string" where
  "type_repr v = ''<class '' @ apostrophe @ qualified_name v @ apostrophe @ ''>''"

text \<open>\<^verbatim>\<open>isinstance(x, dict)\<close> and \<^verbatim>\<open>isinstance(x, str)\<close> on a JSON value.\<close>

fun is_dict :: "json \<Rightarrow> bool" where
  "is_dict (JObj d) = True"
| "is_dict v = False"

fun is_str :: "json \<Rightarrow> bool" where
  "is_str (JStr s) = True"
| "is_str v = False"

text \<open>\<^verbatim>\<open>d.get(k, default)\<close>.\<close>

definition dict_get :: "dict \<Rightarrow> string \<Rightarrow> json \<Rightarrow> json" where
  "dict_get d k dflt = (case map_of d k of Some v \<Rightarrow> v | None \<Rightarrow> dflt)"

text \<open>\<^verbatim>\<open>hasattr(x, a)\<close> and \<^verbatim>\<open>x.a\<close>: only class instances carry attributes here.\<close>

fun getattr :: "pyval \<Rightarrow> string \<Rightarrow> pyval option" where
  "getattr (Object m c attrs) a = map_of attrs a"
| "getattr v a = None"

section \<open>The Python library\<close>

text \<open>
  The standard-library functions the program calls are parameters: the JSON parser and
  printer, and \<^verbatim>\<open>str()\<close>/\<^verbatim>\<open>repr()\<close> of values that are not strings. \<open>json_loads\<close> is
  \<^verbatim>\<open>json.loads\<close> on a \<^verbatim>\<open>str\<close>; \<open>json_dumps\<close> and \<open>json_dumps_indent2\<close> are
  \<^verbatim>\<open>json.dumps(x)\<close> and \<^verbatim>\<open>json.dumps(x, indent=2)\<close> on JSON values, where they cannot fail.
\<close>

record pylib =
  json_loads :: "string \<Rightarrow> py_exception + json"
  json_dumps :: "json \<Rightarrow> string"
  json_dumps_indent2 :: "json \<Rightarrow> string"
  repr :: "pyval \<Rightarrow> string"

text \<open>\<^verbatim>\<open>f"{x}"\<close>: a string is inserted as it is, \<^verbatim>\<open>None\<close> prints as \<^verbatim>\<open>None\<close>.\<close>

definition py_str :: "pylib \<Rightarrow> pyval \<Rightarrow> string" where
  "py_str L v =
     (case v of
        J (JStr s) \<Rightarrow> s
      | J JNull \<Rightarrow> ''None''
      | _ \<Rightarrow> repr L v)"

definition str_opt :: "string option \<Rightarrow> string" where
  "str_opt r = (case r of None \<Rightarrow> ''None'' | Some s \<Rightarrow> s)"

text \<open>
  \<^verbatim>\<open>json.loads(x)\<close> where \<open>x\<close> is a \<^verbatim>\<open>str\<close> or \<^verbatim>\<open>None\<close>: \<^verbatim>\<open>None\<close> is a \<^verbatim>\<open>TypeError\<close>.
\<close>

definition py_json_loads :: "pylib \<Rightarrow> string option \<Rightarrow> py_exception + json" where
  "py_json_loads L x =
     (case x of
        None \<Rightarrow> Inl (Exc TypeError ''the JSON object must be str, bytes or bytearray, not NoneType'')
      | Some s \<Rightarrow> json_loads L s)"

text \<open>
  \<^verbatim>\<open>json.dumps\<close> of a list whose items are \<^verbatim>\<open>__dict__\<close> views or strings: a value that is
  not JSON (bytes, a class instance) raises \<^verbatim>\<open>TypeError\<close> at the first one met.
\<close>

definition not_serializable :: "pyval \<Rightarrow> py_exception" where
  "not_serializable v =
     Exc TypeError (''Object of type '' @ class_name v @ '' is not JSON serializable'')"

fun attrs_to_json :: "(string \<times> pyval) list \<Rightarrow> py_exception + dict" where
  "attrs_to_json [] = Inr []"
| "attrs_to_json ((k, J v) # rest) =
     (case attrs_to_json rest of Inl e \<Rightarrow> Inl e | Inr d \<Rightarrow> Inr ((k, v) # d))"
| "attrs_to_json ((k, v) # rest) = Inl (not_serializable v)"

text \<open>
  The item view of the fallback branch,
  \<^verbatim>\<open>res.__dict__ if hasattr(res, '__dict__') else str(res)\<close>, already turned into JSON.
\<close>

definition item_view :: "pylib \<Rightarrow> pyval \<Rightarrow> py_exception + json" where
  "item_view L res =
     (case res of
        Object m c attrs \<Rightarrow>
          (case attrs_to_json attrs of Inl e \<Rightarrow> Inl e | Inr d \<Rightarrow> Inr (JObj d))
      | _ \<Rightarrow> Inr (JStr (py_str L res)))"

fun item_views :: "pylib \<Rightarrow> pyval list \<Rightarrow> py_exception + json list" where
  "item_views L [] = Inr []"
| "item_views L (res # rest) =
     (case item_view L res of
        Inl e \<Rightarrow> Inl e
      | Inr v \<Rightarrow> (case item_views L rest of Inl e \<Rightarrow> Inl e | Inr vs \<Rightarrow> Inr (v # vs)))"

section \<open>The tool host and the oracle\<close>

text \<open>
  A raw tool as \<^verbatim>\<open>list_tools\<close> returns it. \<open>inputSchema\<close> and \<open>parameters\<close> are \<open>None\<close>
  when the object has no such attribute (\<^verbatim>\<open>hasattr\<close> is false); \<open>Some (J JNull)\<close> is an
  attribute whose value is \<^verbatim>\<open>None\<close>. A \<open>parameters\<close> attribute is either a Pydantic model
  class, given by what its \<^verbatim>\<open>model_json_schema()\<close> returns, or any other value.
\<close>

datatype params_attr = PydanticModel dict | Value pyval

record raw_tool =
  name :: string
  description :: "string option"
  inputSchema :: "pyval option"
  parameters :: "params_attr option"

text \<open>
  The collaborators of one turn: the transport's \<^verbatim>\<open>list_tools\<close> and \<^verbatim>\<open>call_tool\<close>, and the
  chat completion behind \<^verbatim>\<open>ask_openai\<close> (system prompt, user prompt), whose result is the
  message content, \<^verbatim>\<open>Optional[str]\<close>, or the exception raised inside the \<^verbatim>\<open>try\<close>.
  Within a turn no call is made twice with the same arguments, so a function of the
  arguments covers every behaviour of the collaborators.
\<close>

record environment =
  list_tools :: "py_exception + raw_tool list"
  chat_completions_create :: "string \<Rightarrow> string \<Rightarrow> py_exception + string option"
  call_tool :: "json \<Rightarrow> dict \<Rightarrow> py_exception + pyval list"

text \<open>The calls a turn makes on its collaborators, in order.\<close>

datatype event =
    ListTools
  | ChatCompletion string string
  | CallTool json dict

section \<open>app.py\<close>

subsection \<open>ask_openai\<close>

definition ask_openai :: "environment \<Rightarrow> string \<Rightarrow> string \<Rightarrow> string option" where
  "ask_openai E system_prompt user_prompt =
     (case chat_completions_create E system_prompt user_prompt of
        Inr content \<Rightarrow> content
      | Inl e \<Rightarrow> Some (''Error: Could not contact OpenAI - '' @ exc_str e))"

subsection \<open>list_mcp_tools_with_schema\<close>

definition parameter_schema_for_llm :: "raw_tool \<Rightarrow> dict" where
  "parameter_schema_for_llm tool_obj =
     (if inputSchema tool_obj \<noteq> None \<and> inputSchema tool_obj \<noteq> Some (J JNull) then
        (case inputSchema tool_obj of
           Some (J (JObj d)) \<Rightarrow> d
         | _ \<Rightarrow> [])
      else if parameters tool_obj \<noteq> None then
        (case parameters tool_obj of
           Some (PydanticModel schema) \<Rightarrow> schema
         | Some (Value (J (JObj d))) \<Rightarrow> d
         | _ \<Rightarrow> [])
      else [])"

definition tool_data :: "raw_tool \<Rightarrow> json" where
  "tool_data tool_obj =
     JObj [(''name'', JStr (name tool_obj)),
           (''description'', (case description tool_obj of None \<Rightarrow> JNull | Some d \<Rightarrow> JStr d)),
           (''parameters_schema'', JObj (parameter_schema_for_llm tool_obj))]"

definition list_mcp_tools_with_schema :: "environment \<Rightarrow> json list" where
  "list_mcp_tools_with_schema E =
     (case list_tools E of
        Inl e \<Rightarrow> []
      | Inr raw_tools \<Rightarrow> if raw_tools = [] then [] else map tool_data raw_tools)"

subsection \<open>process_user_query\<close>

definition system_prompt_tool_selection :: string where
  \<open>system_prompt_tool_selection =
     ''\<newline>'' @
     ''You are an AI assistant that helps select the correct tool and its arguments to answer a user's query.\<newline>'' @
     ''You will be provided with a list of available tools in JSON format, including their names, descriptions, and JSON schemas for their parameters.\<newline>'' @
     ''Based on the user's query, you must decide which tool to use and what arguments to pass to it.\<newline>'' @
     ''\<newline>'' @
     ''Respond ONLY with a JSON object of the following format:\<newline>'' @
     ''{\<newline>'' @
     ''  "tool_name": "name_of_the_tool_to_use",\<newline>'' @
     ''  "arguments": { "param1": "value1", "param2": "value2" ... }\<newline>'' @
     ''}\<newline>'' @
     ''If no tool is suitable for the user's query, respond with:\<newline>'' @
     ''{\<newline>'' @
     ''  "tool_name": null,\<newline>'' @
     ''  "arguments": {}\<newline>'' @
     ''}\<newline>'' @
     ''Ensure that argument values match the types specified in the tool's parameter schema.\<newline>'' @
     ''For example, if a parameter is type 'integer', provide an integer, not a string.\<newline>'' @
     ''If a parameter is an 'object' with properties, provide a nested JSON object for that argument.\<newline>'' @
     ''If a parameter is an 'array', provide a JSON array.\<newline>'' @
     ''Do not add any explanations before or after the JSON object.\<newline>'' @
     ''    ''\<close>

definition user_prompt_tool_selection :: "string \<Rightarrow> string \<Rightarrow> string" where
  \<open>user_prompt_tool_selection user_query tools_json_for_llm =
     ''\<newline>'' @
     ''User query: "'' @ user_query @ ''"\<newline>'' @
     ''\<newline>'' @
     ''Available tools:\<newline>'' @
     tools_json_for_llm @ ''\<newline>'' @
     ''\<newline>'' @
     ''Based on the user query and available tools, which tool should be used and with what arguments?\<newline>'' @
     ''Remember to respond only with the JSON object.\<newline>'' @
     ''    ''\<close>

definition general_answer_prompt :: "string \<Rightarrow> string" where
  "general_answer_prompt user_query =
     ''The user asked: '' @ apostrophe @ user_query @ apostrophe @
     ''. No specific tool was chosen. Please provide a helpful general response.''"

definition system_prompt_summarize :: string where
  "system_prompt_summarize =
     ''You are an AI assistant. A tool was executed to help answer a user's query. Explain the tool's output to the user in a friendly and concise way.''"

definition user_prompt_summarize :: "pylib \<Rightarrow> string \<Rightarrow> json \<Rightarrow> json \<Rightarrow> pyval \<Rightarrow> string" where
  \<open>user_prompt_summarize L user_query tool_name tool_arguments tool_output =
     ''\<newline>'' @
     ''The user originally asked: "'' @ user_query @ ''"\<newline>'' @
     ''The tool "'' @ py_str L (J tool_name) @ ''" was called with arguments '' @
       json_dumps L tool_arguments @ ''.\<newline>'' @
     ''The tool returned the following output:\<newline>'' @
     ''---\<newline>'' @
     py_str L tool_output @ ''\<newline>'' @
     ''---\<newline>'' @
     ''Please provide a natural language response to the user based on this.\<newline>'' @
     ''    ''\<close>

text \<open>
  Lines 149 to 156: the oracle's text is parsed and the two fields read. \<open>Inl\<close> is the
  message the function returns from an \<^verbatim>\<open>except\<close> clause; \<^verbatim>\<open>.get\<close> on a value that is
  not a \<^verbatim>\<open>dict\<close> is an \<^verbatim>\<open>AttributeError\<close>.
\<close>

definition no_attribute_get :: "json \<Rightarrow> py_exception" where
  "no_attribute_get v =
     Exc AttributeError
       (apostrophe @ json_type_name v @ apostrophe @ '' object has no attribute '' @
        apostrophe @ ''get'' @ apostrophe)"

definition parse_tool_choice :: "pylib \<Rightarrow> string option \<Rightarrow> string + (json \<times> json)" where
  "parse_tool_choice L llm_tool_choice_str =
     (case (case py_json_loads L llm_tool_choice_str of
              Inl e \<Rightarrow> Inl e
            | Inr (JObj llm_tool_choice) \<Rightarrow>
                Inr (dict_get llm_tool_choice ''tool_name'' JNull,
                     dict_get llm_tool_choice ''arguments'' (JObj []))
            | Inr v \<Rightarrow> Inl (no_attribute_get v)) of
        Inr choice \<Rightarrow> Inr choice
      | Inl e \<Rightarrow>
          if exc_class_of e = JSONDecodeError then
            Inl (''Error: LLM did not provide a valid JSON response for tool selection. LLM response:\<newline>'' @
                 str_opt llm_tool_choice_str)
          else
            Inl (''Error parsing LLM tool choice: '' @ exc_str e @ ''. LLM response:\<newline>'' @
                 str_opt llm_tool_choice_str))"

text \<open>Lines 178 to 185: the result list of \<^verbatim>\<open>call_tool\<close> as one value for the prompt.\<close>

definition tool_output_for_llm :: "pylib \<Rightarrow> pyval list \<Rightarrow> py_exception + pyval" where
  "tool_output_for_llm L tool_result_list =
     (if tool_result_list \<noteq> [] \<and> getattr (hd tool_result_list) ''text'' \<noteq> None then
        Inr (the (getattr (hd tool_result_list) ''text''))
      else if tool_result_list \<noteq> [] \<and> getattr (hd tool_result_list) ''data'' \<noteq> None then
        Inr (J (JStr (''[Binary data received, type: '' @
                      type_repr (the (getattr (hd tool_result_list) ''data'')) @ '']'')))
      else if tool_result_list \<noteq> [] then
        (case item_views L tool_result_list of
           Inl e \<Rightarrow> Inl e
         | Inr views \<Rightarrow> Inr (J (JStr (json_dumps L (JArr views)))))
      else Inr (J (JStr ''Tool executed successfully but returned no content.'')))"

text \<open>
  Lines 167 to 189, the \<^verbatim>\<open>try\<close> block around the call: \<open>Inl\<close> is the message of an early
  \<^verbatim>\<open>return\<close>, \<open>Inr\<close> the tool output that goes on to the summary; the second component
  is the call made on the transport, if any.
\<close>

definition error_executing :: "pylib \<Rightarrow> json \<Rightarrow> py_exception \<Rightarrow> string" where
  "error_executing L tool_name e =
     ''Error executing tool '' @ apostrophe @ py_str L (J tool_name) @ apostrophe @
     '' on MCP server: '' @ exc_str e"

definition incorrect_format :: "pylib \<Rightarrow> json \<Rightarrow> json \<Rightarrow> string" where
  "incorrect_format L tool_name tool_arguments =
     ''Error: LLM provided arguments in an incorrect format for tool '' @ apostrophe @
     py_str L (J tool_name) @ apostrophe @ ''. Expected a dictionary, got '' @
     type_repr (J tool_arguments) @ ''.''"

definition call_mcp_tool :: "pylib \<Rightarrow> environment \<Rightarrow> json \<Rightarrow> json \<Rightarrow> (string + pyval) \<times> event list" where
  "call_mcp_tool L E tool_name tool_arguments =
     (case tool_arguments of
        JObj arguments \<Rightarrow>
          (case call_tool E tool_name arguments of
             Inl e \<Rightarrow> (Inl (error_executing L tool_name e), [CallTool tool_name arguments])
           | Inr tool_result_list \<Rightarrow>
               (case tool_output_for_llm L tool_result_list of
                  Inl e \<Rightarrow> (Inl (error_executing L tool_name e), [CallTool tool_name arguments])
                | Inr tool_output \<Rightarrow> (Inr tool_output, [CallTool tool_name arguments])))
      | _ \<Rightarrow> (Inl (incorrect_format L tool_name tool_arguments), []))"

text \<open>
  One turn. The result is what the function returns (\<open>None\<close> is Python's \<^verbatim>\<open>None\<close>)
  and the calls it made on its collaborators.
\<close>

definition process_user_query :: "pylib \<Rightarrow> environment \<Rightarrow> string \<Rightarrow> string option \<times> event list" where
  "process_user_query L E user_query =
     (let mcp_tools_list = list_mcp_tools_with_schema E in
      if mcp_tools_list = [] then
        (Some ''Error: Could not retrieve tools from the MCP server.'', [ListTools])
      else
        let tools_json_for_llm = json_dumps_indent2 L (JArr mcp_tools_list);
            user_prompt = user_prompt_tool_selection user_query tools_json_for_llm;
            llm_tool_choice_str = ask_openai E system_prompt_tool_selection user_prompt;
            selected = [ListTools, ChatCompletion system_prompt_tool_selection user_prompt]
        in
          (case parse_tool_choice L llm_tool_choice_str of
             Inl message \<Rightarrow> (Some message, selected)
           | Inr (tool_name, tool_arguments) \<Rightarrow>
               if \<not> truthy tool_name then
                 let prompt = general_answer_prompt user_query;
                     general_response = ask_openai E ''You are a helpful AI assistant.'' prompt
                 in (Some (''(No specific tool was used by the LLM for your query)\<newline>LLM: '' @
                           str_opt general_response),
                     selected @ [ChatCompletion ''You are a helpful AI assistant.'' prompt])
               else
                 (case call_mcp_tool L E tool_name tool_arguments of
                    (Inl message, calls) \<Rightarrow> (Some message, selected @ calls)
                  | (Inr tool_output, calls) \<Rightarrow>
                      let prompt = user_prompt_summarize L user_query tool_name tool_arguments tool_output;
                          final_response = ask_openai E system_prompt_summarize prompt
                      in (final_response,
                          selected @ calls @ [ChatCompletion system_prompt_summarize prompt]))))"

section \<open>tools/tavily_search_tool.py\<close>

text \<open>\<^verbatim>\<open>str.strip()\<close>: the whitespace code points below 256.\<close>

definition isspace :: "char \<Rightarrow> bool" where
  "isspace c = (of_char c \<in> {9, 10, 11, 12, 13, 28, 29, 30, 31, 32, 133, 160 :: nat})"

definition strip :: "string \<Rightarrow> string" where
  "strip s = rev (dropWhile isspace (rev (dropWhile isspace s)))"

text \<open>Decimal digits of a status code, as \<^verbatim>\<open>f"{code}"\<close> prints an \<^verbatim>\<open>int\<close>.\<close>

fun digits :: "nat \<Rightarrow> nat \<Rightarrow> string" where
  "digits 0 n = []"
| "digits (Suc fuel) n =
     (if n < 10 then [char_of (48 + n)]
      else digits fuel (n div 10) @ [char_of (48 + n mod 10)])"

definition show_nat :: "nat \<Rightarrow> string" where
  "show_nat n = digits (Suc n) n"

text \<open>
  The request body of the search and what the HTTP exchange inside
  \<^verbatim>\<open>TavilyClient.search\<close> can do: return the decoded body, or raise
  \<^verbatim>\<open>httpx.HTTPStatusError\<close> (status code, body text), \<^verbatim>\<open>httpx.RequestError\<close> or any
  other exception (\<^verbatim>\<open>response.json()\<close> failing is one).
\<close>

record payload =
  api_key :: string
  query :: string
  max_results :: int
  search_depth :: string
  include_answer :: bool
  include_images :: bool
  include_raw_content :: bool

datatype http_outcome =
    ResponseJson json
  | HTTPStatusError nat string
  | RequestError string
  | OtherError string

text \<open>
  The server's surroundings: the \<^verbatim>\<open>TAVILY_API_KEY\<close> variable and the HTTP exchange
  with \<^verbatim>\<open>https://api.tavily.com/search\<close>.
\<close>

record search_environment =
  TAVILY_API_KEY :: "string option"
  post_search :: "payload \<Rightarrow> http_outcome"

definition search :: "search_environment \<Rightarrow> string \<Rightarrow> string \<Rightarrow> int \<Rightarrow> string \<Rightarrow> py_exception + json" where
  "search S self_api_key q n depth =
     (if strip q = [] then Inl (Exc TavilySearchError ''Search query cannot be empty'')
      else
        (case post_search S
                \<lparr>api_key = self_api_key, query = strip q, max_results = n, search_depth = depth,
                 include_answer = True, include_images = False, include_raw_content = False\<rparr> of
           ResponseJson body \<Rightarrow> Inr body
         | HTTPStatusError code text \<Rightarrow>
             Inl (Exc TavilySearchError
                    (''Search request failed: '' @ ''HTTP '' @ show_nat code @ '': '' @ text))
         | RequestError msg \<Rightarrow> Inl (Exc TavilySearchError (''Network error: '' @ msg))
         | OtherError msg \<Rightarrow> Inl (Exc TavilySearchError (''Unexpected error: '' @ msg))))"

text \<open>\<^verbatim>\<open>get_tavily_client\<close>: the client is its API key.\<close>

definition get_tavily_client :: "search_environment \<Rightarrow> py_exception + string" where
  "get_tavily_client S =
     (case TAVILY_API_KEY S of
        None \<Rightarrow> Inl (Exc ValueError ''TAVILY_API_KEY environment variable is required'')
      | Some k \<Rightarrow>
          if k = [] then Inl (Exc ValueError ''TAVILY_API_KEY environment variable is required'')
          else Inr k)"

section \<open>server.py\<close>

text \<open>\<^verbatim>\<open>x.get(k, default)\<close> and \<^verbatim>\<open>for r in x\<close> on a value that need not be a \<^verbatim>\<open>dict\<close> or a list.\<close>

definition py_get :: "json \<Rightarrow> string \<Rightarrow> json \<Rightarrow> py_exception + json" where
  "py_get x k dflt = (case x of JObj d \<Rightarrow> Inr (dict_get d k dflt) | _ \<Rightarrow> Inl (no_attribute_get x))"

definition py_iter :: "json \<Rightarrow> py_exception + json list" where
  "py_iter x =
     (case x of
        JArr xs \<Rightarrow> Inr xs
      | JObj d \<Rightarrow> Inr (map (\<lambda>kv. JStr (fst kv)) d)
      | JStr s \<Rightarrow> Inr (map (\<lambda>c. JStr [c]) s)
      | _ \<Rightarrow> Inl (Exc TypeError
                   (apostrophe @ json_type_name x @ apostrophe @ '' object is not iterable'')))"

definition error_object :: "string \<Rightarrow> json" where
  "error_object msg = JObj [(''error'', JStr msg)]"

text \<open>The two formatting steps of lines 56 to 76.\<close>

definition format_answer :: "json \<Rightarrow> string \<Rightarrow> py_exception + json list" where
  "format_answer results q =
     (case py_get results ''answer'' JNull of
        Inl e \<Rightarrow> Inl e
      | Inr answer \<Rightarrow>
          if truthy answer then
            Inr [JObj [(''type'', JStr ''answer''), (''content'', answer), (''query'', JStr q)]]
          else Inr [])"

definition format_result :: "json \<Rightarrow> py_exception + json" where
  "format_result result =
     (case result of
        JObj d \<Rightarrow>
          Inr (JObj [(''type'', JStr ''result''),
                     (''title'', dict_get d ''title'' (JStr [])),
                     (''url'', dict_get d ''url'' (JStr [])),
                     (''content'', dict_get d ''content'' (JStr [])),
                     (''score'', dict_get d ''score'' (JFloat (Finite 0 0)))])
      | _ \<Rightarrow> Inl (no_attribute_get result))"

fun format_results :: "json list \<Rightarrow> py_exception + json list" where
  "format_results [] = Inr []"
| "format_results (result # rest) =
     (case format_result result of
        Inl e \<Rightarrow> Inl e
      | Inr r \<Rightarrow> (case format_results rest of Inl e \<Rightarrow> Inl e | Inr rs \<Rightarrow> Inr (r # rs)))"

definition formatted_results :: "json \<Rightarrow> string \<Rightarrow> py_exception + json list" where
  "formatted_results results q =
     (case format_answer results q of
        Inl e \<Rightarrow> Inl e
      | Inr answer_part \<Rightarrow>
          (case py_get results ''results'' (JArr []) of
             Inl e \<Rightarrow> Inl e
           | Inr listed \<Rightarrow>
               (case py_iter listed of
                  Inl e \<Rightarrow> Inl e
                | Inr items \<Rightarrow>
                    (case format_results items of
                       Inl e \<Rightarrow> Inl e
                     | Inr result_part \<Rightarrow> Inr (answer_part @ result_part)))))"

text \<open>A call of \<^verbatim>\<open>client.search(query, max_results, search_depth)\<close>.\<close>

datatype search_call = Search string int string

text \<open>
  The \<^verbatim>\<open>try\<close> block of \<^verbatim>\<open>tavily_search\<close>. The query is any JSON value, as the code tests
  \<^verbatim>\<open>isinstance(query, str)\<close> itself; \<open>max_results_arg\<close> is what \<^verbatim>\<open>int(max_results)\<close>
  yields, the integer or the exception it raises; the search depth is a \<^verbatim>\<open>str\<close>, as
  declared. The second component lists the searches performed.
\<close>

definition tavily_search_try ::
  "search_environment \<Rightarrow> json \<Rightarrow> py_exception + int \<Rightarrow> string \<Rightarrow> (py_exception + json list) \<times> search_call list" where
  "tavily_search_try S query_arg max_results_arg search_depth_arg =
     (case query_arg of
        JStr q \<Rightarrow>
          if strip q = [] then
            (Inr [error_object ''Query parameter is required and must be a non-empty string''], [])
          else
            (case max_results_arg of
               Inl e \<Rightarrow> (Inl e, [])
             | Inr m \<Rightarrow>
                 let n = max 1 (min m 20);
                     depth = (if search_depth_arg \<notin> set [''basic'', ''advanced''] then ''basic''
                              else search_depth_arg)
                 in (case get_tavily_client S of
                       Inl e \<Rightarrow> (Inl e, [])
                     | Inr client \<Rightarrow>
                         (case search S client q n depth of
                            Inl e \<Rightarrow> (Inl e, [Search q n depth])
                          | Inr results \<Rightarrow> (formatted_results results q, [Search q n depth]))))
      | _ \<Rightarrow> (Inr [error_object ''Query parameter is required and must be a non-empty string''], []))"

text \<open>The three \<^verbatim>\<open>except\<close> clauses, in the order of the source.\<close>

definition handle_search_exception :: "py_exception \<Rightarrow> json list" where
  "handle_search_exception e =
     (if isinstance_exc e TavilySearchError then [error_object (''Search failed: '' @ exc_str e)]
      else if isinstance_exc e ValueError then [error_object (''Configuration error: '' @ exc_str e)]
      else [error_object (''Unexpected error: '' @ exc_str e)])"

definition tavily_search ::
  "search_environment \<Rightarrow> json \<Rightarrow> py_exception + int \<Rightarrow> string \<Rightarrow> json list \<times> search_call list" where
  "tavily_search S query_arg max_results_arg search_depth_arg =
     (case tavily_search_try S query_arg max_results_arg search_depth_arg of
        (Inr result, calls) \<Rightarrow> (result, calls)
      | (Inl e, calls) \<Rightarrow> (handle_search_exception e, calls))"

section \<open>Names for the values of a turn\<close>

text \<open>
  The user prompt of the selection call, the oracle's raw answer to it and the calls made
  up to that point, as \<^verbatim>\<open>process_user_query\<close> computes them once the catalog is not empty.
\<close>

definition selection_user_prompt :: "pylib \<Rightarrow> environment \<Rightarrow> string \<Rightarrow> string" where
  "selection_user_prompt L E user_query =
     user_prompt_tool_selection user_query
       (json_dumps_indent2 L (JArr (list_mcp_tools_with_schema E)))"

definition llm_tool_choice_str :: "pylib \<Rightarrow> environment \<Rightarrow> string \<Rightarrow> string option" where
  "llm_tool_choice_str L E user_query =
     ask_openai E system_prompt_tool_selection (selection_user_prompt L E user_query)"

definition selection_events :: "pylib \<Rightarrow> environment \<Rightarrow> string \<Rightarrow> event list" where
  "selection_events L E user_query =
     [ListTools, ChatCompletion system_prompt_tool_selection (selection_user_prompt L E user_query)]"

text \<open>
  The fallback chain of the catalog normalizer as the specification words it: the direct
  schema attribute if present and an object, else the \<^verbatim>\<open>parameters\<close> attribute, else \<open>{}\<close>.
\<close>

definition spec_parameter_schema :: "raw_tool \<Rightarrow> dict" where
  "spec_parameter_schema tool_obj =
     (case inputSchema tool_obj of
        Some (J (JObj d)) \<Rightarrow> d
      | _ \<Rightarrow>
          (case parameters tool_obj of
             Some (PydanticModel schema) \<Rightarrow> schema
           | Some (Value (J (JObj d))) \<Rightarrow> d
           | _ \<Rightarrow> []))"

text \<open>Whether \<open>p\<close> occurs in \<open>s\<close> as a contiguous piece.\<close>

fun starts_with :: "string \<Rightarrow> string \<Rightarrow> bool" where
  "starts_with s [] = True"
| "starts_with [] (c # p) = False"
| "starts_with (a # s) (c # p) = (a = c \<and> starts_with s p)"

fun contains :: "string \<Rightarrow> string \<Rightarrow> bool" where
  "contains [] p = (p = [])"
| "contains (a # s) p = (starts_with (a # s) p \<or> contains s p)"

section \<open>Valid JSON\<close>

text \<open>
  What the specification calls valid JSON: the grammar of RFC 8259, recognised character by
  character with a stack of the open arrays and objects. A value is an object, an array,
  a string, a number or one of \<^verbatim>\<open>true\<close>, \<^verbatim>\<open>false\<close>, \<^verbatim>\<open>null\<close>; white space is space, tab,
  line feed and carriage return.
\<close>

datatype frame = InArray | InObject

datatype mode =
    ExpectValue
  | ExpectValueOrEnd
  | ExpectKeyOrEnd
  | ExpectKey
  | ExpectColon
  | AfterValue
  | InString bool
  | InEscape bool
  | InHex bool nat
  | InLiteral string
  | AfterMinus
  | AfterZero
  | InInt
  | AfterDot
  | InFrac
  | AfterE
  | AfterExpSign
  | InExp

definition json_ws :: "char \<Rightarrow> bool" where
  "json_ws c = (c = CHR '' '' \<or> c = CHR 0x09 \<or> c = CHR 0x0A \<or> c = CHR 0x0D)"

definition is_digit :: "char \<Rightarrow> bool" where
  "is_digit c = (48 \<le> (of_char c :: nat) \<and> (of_char c :: nat) \<le> 57)"

definition is_hex :: "char \<Rightarrow> bool" where
  "is_hex c =
     (is_digit c \<or> (65 \<le> (of_char c :: nat) \<and> (of_char c :: nat) \<le> 70) \<or>
      (97 \<le> (of_char c :: nat) \<and> (of_char c :: nat) \<le> 102))"

text \<open>After a complete value: a comma, the closing bracket of the innermost frame, or white space.\<close>

definition after_value :: "frame list \<Rightarrow> char \<Rightarrow> (frame list \<times> mode) option" where
  "after_value stack c =
     (if json_ws c then Some (stack, AfterValue)
      else if c = CHR '','' then
        (case stack of
           [] \<Rightarrow> None
         | InArray # rest \<Rightarrow> Some (stack, ExpectValue)
         | InObject # rest \<Rightarrow> Some (stack, ExpectKey))
      else if c = CHR '']'' then
        (case stack of InArray # rest \<Rightarrow> Some (rest, AfterValue) | _ \<Rightarrow> None)
      else if c = CHR ''}'' then
        (case stack of InObject # rest \<Rightarrow> Some (rest, AfterValue) | _ \<Rightarrow> None)
      else None)"

text \<open>The first character of a value.\<close>

definition begin_value :: "frame list \<Rightarrow> char \<Rightarrow> (frame list \<times> mode) option" where
  "begin_value stack c =
     (if c = CHR ''{'' then Some (InObject # stack, ExpectKeyOrEnd)
      else if c = CHR ''['' then Some (InArray # stack, ExpectValueOrEnd)
      else if c = CHR 0x22 then Some (stack, InString False)
      else if c = CHR ''-'' then Some (stack, AfterMinus)
      else if c = CHR ''0'' then Some (stack, AfterZero)
      else if is_digit c then Some (stack, InInt)
      else if c = CHR ''t'' then Some (stack, InLiteral ''rue'')
      else if c = CHR ''f'' then Some (stack, InLiteral ''alse'')
      else if c = CHR ''n'' then Some (stack, InLiteral ''ull'')
      else None)"

text \<open>One character. The flag of a string says that it is the key of an object member.\<close>

fun step :: "frame list \<Rightarrow> mode \<Rightarrow> char \<Rightarrow> (frame list \<times> mode) option" where
  "step stack ExpectValue c =
     (if json_ws c then Some (stack, ExpectValue) else begin_value stack c)"
| "step stack ExpectValueOrEnd c =
     (if json_ws c then Some (stack, ExpectValueOrEnd)
      else if c = CHR '']'' then
        (case stack of InArray # rest \<Rightarrow> Some (rest, AfterValue) | _ \<Rightarrow> None)
      else begin_value stack c)"
| "step stack ExpectKeyOrEnd c =
     (if json_ws c then Some (stack, ExpectKeyOrEnd)
      else if c = CHR ''}'' then
        (case stack of InObject # rest \<Rightarrow> Some (rest, AfterValue) | _ \<Rightarrow> None)
      else if c = CHR 0x22 then Some (stack, InString True)
      else None)"
| "step stack ExpectKey c =
     (if json_ws c then Some (stack, ExpectKey)
      else if c = CHR 0x22 then Some (stack, InString True)
      else None)"
| "step stack ExpectColon c =
     (if json_ws c then Some (stack, ExpectColon)
      else if c = CHR '':'' then Some (stack, ExpectValue)
      else None)"
| "step stack AfterValue c = after_value stack c"
| "step stack (InString key) c =
     (if c = CHR 0x22 then Some (stack, if key then ExpectColon else AfterValue)
      else if c = CHR 0x5C then Some (stack, InEscape key)
      else if (of_char c :: nat) < 32 then None
      else Some (stack, InString key))"
| "step stack (InEscape key) c =
     (if c = CHR 0x22 \<or> c = CHR 0x5C \<or> c = CHR ''/'' \<or> c = CHR ''b'' \<or> c = CHR ''f'' \<or>
         c = CHR ''n'' \<or> c = CHR ''r'' \<or> c = CHR ''t'' then Some (stack, InString key)
      else if c = CHR ''u'' then Some (stack, InHex key 4)
      else None)"
| "step stack (InHex key n) c =
     (if is_hex c then Some (stack, if n \<le> 1 then InString key else InHex key (n - 1))
      else None)"
| "step stack (InLiteral []) c = None"
| "step stack (InLiteral (x # xs)) c =
     (if c = x then Some (stack, if xs = [] then AfterValue else InLiteral xs) else None)"
| "step stack AfterMinus c =
     (if c = CHR ''0'' then Some (stack, AfterZero)
      else if is_digit c then Some (stack, InInt)
      else None)"
| "step stack AfterZero c =
     (if c = CHR ''.'' then Some (stack, AfterDot)
      else if c = CHR ''e'' \<or> c = CHR ''E'' then Some (stack, AfterE)
      else after_value stack c)"
| "step stack InInt c =
     (if is_digit c then Some (stack, InInt)
      else if c = CHR ''.'' then Some (stack, AfterDot)
      else if c = CHR ''e'' \<or> c = CHR ''E'' then Some (stack, AfterE)
      else after_value stack c)"
| "step stack AfterDot c = (if is_digit c then Some (stack, InFrac) else None)"
| "step stack InFrac c =
     (if is_digit c then Some (stack, InFrac)
      else if c = CHR ''e'' \<or> c = CHR ''E'' then Some (stack, AfterE)
      else after_value stack c)"
| "step stack AfterE c =
     (if c = CHR ''+'' \<or> c = CHR ''-'' then Some (stack, AfterExpSign)
      else if is_digit c then Some (stack, InExp)
      else None)"
| "step stack AfterExpSign c = (if is_digit c then Some (stack, InExp) else None)"
| "step stack InExp c = (if is_digit c then Some (stack, InExp) else after_value stack c)"

fun run :: "frame list \<Rightarrow> mode \<Rightarrow> string \<Rightarrow> (frame list \<times> mode) option" where
  "run stack m [] = Some (stack, m)"
| "run stack m (c # cs) =
     (case step stack m c of
        None \<Rightarrow> None
      | Some (stack', m') \<Rightarrow> run stack' m' cs)"

text \<open>A text is valid when the run ends after one complete value with nothing left open.\<close>

definition valid_json :: "string \<Rightarrow> bool" where
  "valid_json s =
     (case run [] ExpectValue s of
        Some ([], m) \<Rightarrow> m = AfterValue \<or> m = AfterZero \<or> m = InInt \<or> m = InFrac \<or> m = InExp
      | _ \<Rightarrow> False)"

section \<open>Test doubles\<close>

text \<open>
  Stand-ins for the collaborators, for running the definitions on the scenarios of the
  specification: a JSON parser that knows five selections and rejects every other text (the fifth
  uses the constant \<^verbatim>\<open>NaN\<close>, which \<^verbatim>\<open>json.loads\<close> accepts),
  printers that return a fixed text, a tool host, an oracle and a search service whose
  answers are given.
\<close>

definition stub_loads :: "string \<Rightarrow> py_exception + json" where
  \<open>stub_loads s =
     (if s = ''{"tool_name": null, "arguments": {}}'' then
        Inr (JObj [(''tool_name'', JNull), (''arguments'', JObj [])])
      else if s = ''{"tool_name": "", "arguments": {}}'' then
        Inr (JObj [(''tool_name'', JStr []), (''arguments'', JObj [])])
      else if s = ''{"tool_name":"x","arguments":"not-an-object"}'' then
        Inr (JObj [(''tool_name'', JStr ''x''), (''arguments'', JStr ''not-an-object'')])
      else if s = ''{"tool_name":"tavily_search","arguments":{"query":"recent AI news","max_results":5,"search_depth":"basic"}}'' then
        Inr (JObj [(''tool_name'', JStr ''tavily_search''),
                   (''arguments'', JObj [(''query'', JStr ''recent AI news''),
                                         (''max_results'', JInt 5),
                                         (''search_depth'', JStr ''basic'')])])
      else if s = ''{"tool_name":"tavily_search","arguments":{"max_results":NaN}}'' then
        Inr (JObj [(''tool_name'', JStr ''tavily_search''),
                   (''arguments'', JObj [(''max_results'', JFloat NaN)])])
      else Inl (Exc JSONDecodeError ''Expecting value: line 1 column 1 (char 0)''))\<close>

definition stub_lib :: pylib where
  "stub_lib =
     \<lparr>json_loads = stub_loads,
      json_dumps = (\<lambda>v. ''<json>''),
      json_dumps_indent2 = (\<lambda>v. ''<tools>''),
      repr = (\<lambda>v. ''<repr>'')\<rparr>"

definition search_tool :: raw_tool where
  "search_tool =
     \<lparr>name = ''tavily_search'',
      description = Some ''This tool performs web searches'',
      inputSchema = Some (J (JObj [(''type'', JStr ''object'')])),
      parameters = None\<rparr>"

definition stub_environment ::
  "(py_exception + raw_tool list) \<Rightarrow> (py_exception + string option) \<Rightarrow>
   (py_exception + string option) \<Rightarrow> (py_exception + pyval list) \<Rightarrow> environment" where
  "stub_environment tools choice narration outcome =
     \<lparr>list_tools = tools,
      chat_completions_create =
        (\<lambda>system_prompt user_prompt.
           if system_prompt = system_prompt_tool_selection then choice else narration),
      call_tool = (\<lambda>tool_name arguments. outcome)\<rparr>"

definition search_selection :: string where
  \<open>search_selection =
     ''{"tool_name":"tavily_search","arguments":{"query":"recent AI news","max_results":5,"search_depth":"basic"}}''\<close>

definition malformed_selection :: string where
  \<open>malformed_selection = ''{"tool_name":"x","arguments":"not-an-object"}''\<close>

definition null_selection :: string where
  \<open>null_selection = ''{"tool_name": null, "arguments": {}}''\<close>

definition nan_selection :: string where
  \<open>nan_selection = ''{"tool_name":"tavily_search","arguments":{"max_results":NaN}}''\<close>

definition empty_name_selection :: string where
  \<open>empty_name_selection = ''{"tool_name": "", "arguments": {}}''\<close>

definition text_content :: "string \<Rightarrow> pyval" where
  "text_content t =
     Object ''mcp.types'' ''TextContent''
       [(''type'', J (JStr ''text'')), (''text'', J (JStr t)), (''annotations'', J JNull)]"

definition image_content :: "string \<Rightarrow> pyval" where
  "image_content b =
     Object ''mcp.types'' ''ImageContent''
       [(''type'', J (JStr ''image'')), (''data'', J (JStr b)),
        (''mimeType'', J (JStr ''image/png'')), (''annotations'', J JNull)]"

definition embedded_resource :: pyval where
  "embedded_resource =
     Object ''mcp.types'' ''EmbeddedResource''
       [(''type'', J (JStr ''resource'')),
        (''resource'',
           Object ''mcp.types'' ''TextResourceContents''
             [(''uri'', J (JStr ''file:///notes.txt'')), (''mimeType'', J (JStr ''text/plain'')),
              (''text'', J (JStr ''hello''))]),
        (''annotations'', J JNull)]"

definition stub_search_environment :: "string option \<Rightarrow> http_outcome \<Rightarrow> search_environment" where
  "stub_search_environment key outcome = \<lparr>TAVILY_API_KEY = key, post_search = (\<lambda>body. outcome)\<rparr>"

definition search_response :: json where
  "search_response =
     JObj [(''answer'', JStr ''AI news summary''),
           (''results'',
              JArr [JObj [(''title'', JStr ''News''), (''url'', JStr ''https://example.org''),
                          (''content'', JStr ''text''), (''score'', JFloat (Finite 3 (-2)))]])]"

text \<open>
  A search service that answers as given to a request whose \<^verbatim>\<open>max_results\<close> lies between
  1 and 20 and whose depth is \<^verbatim>\<open>basic\<close> or \<^verbatim>\<open>advanced\<close>, and refuses any other request.
\<close>

definition guarded_search_environment :: "string option \<Rightarrow> http_outcome \<Rightarrow> search_environment" where
  "guarded_search_environment key outcome =
     \<lparr>TAVILY_API_KEY = key,
      post_search =
        (\<lambda>body. if 1 \<le> max_results body \<and> max_results body \<le> 20 \<and>
                      (search_depth body = ''basic'' \<or> search_depth body = ''advanced'')
                   then outcome else RequestError ''unexpected request'')\<rparr>"

section \<open>Shared facts about a turn\<close>

lemma process_user_query_no_catalog:
  "list_mcp_tools_with_schema E = [] \<Longrightarrow>
   process_user_query L E uq =
     (Some ''Error: Could not retrieve tools from the MCP server.'', [ListTools])"
  by (simp add: process_user_query_def)

lemma process_user_query_catalog:
  "list_mcp_tools_with_schema E \<noteq> [] \<Longrightarrow>
   process_user_query L E uq =
     (case parse_tool_choice L (llm_tool_choice_str L E uq) of
        Inl message \<Rightarrow> (Some message, selection_events L E uq)
      | Inr (tool_name, tool_arguments) \<Rightarrow>
          if \<not> truthy tool_name then
            (Some (''(No specific tool was used by the LLM for your query)\<newline>LLM: '' @
                   str_opt (ask_openai E ''You are a helpful AI assistant.'' (general_answer_prompt uq))),
             selection_events L E uq @
               [ChatCompletion ''You are a helpful AI assistant.'' (general_answer_prompt uq)])
          else
            (case call_mcp_tool L E tool_name tool_arguments of
               (Inl message, calls) \<Rightarrow> (Some message, selection_events L E uq @ calls)
             | (Inr tool_output, calls) \<Rightarrow>
                 (ask_openai E system_prompt_summarize
                    (user_prompt_summarize L uq tool_name tool_arguments tool_output),
                  selection_events L E uq @ calls @
                    [ChatCompletion system_prompt_summarize
                       (user_prompt_summarize L uq tool_name tool_arguments tool_output)])))"
  by (simp add: process_user_query_def Let_def llm_tool_choice_str_def selection_events_def
      selection_user_prompt_def split: sum.splits prod.splits)

lemma parse_tool_choice_object:
  "json_loads L raw = Inr (JObj d) \<Longrightarrow>
   parse_tool_choice L (Some raw) =
     Inr (dict_get d ''tool_name'' JNull, dict_get d ''arguments'' (JObj []))"
  by (simp add: parse_tool_choice_def py_json_loads_def)

lemma parse_tool_choice_raises:
  "json_loads L raw = Inl e \<Longrightarrow>
   parse_tool_choice L (Some raw) =
     Inl (if exc_class_of e = JSONDecodeError then
            ''Error: LLM did not provide a valid JSON response for tool selection. LLM response:\<newline>'' @ raw
          else ''Error parsing LLM tool choice: '' @ exc_str e @ ''. LLM response:\<newline>'' @ raw)"
  by (simp add: parse_tool_choice_def py_json_loads_def str_opt_def)

lemma ask_openai_failure:
  "chat_completions_create E s u = Inl e \<Longrightarrow>
   ask_openai E s u = Some (''Error: Could not contact OpenAI - '' @ exc_str e)"
  by (simp add: ask_openai_def)

lemma selection_prompt_not_assistant:
  "''You are a helpful AI assistant.'' \<noteq> system_prompt_tool_selection"
  by (simp add: system_prompt_tool_selection_def)

lemma selection_prompt_not_summarize:
  "system_prompt_summarize \<noteq> system_prompt_tool_selection"
  by (simp add: system_prompt_tool_selection_def system_prompt_summarize_def)

lemma stub_catalog:
  "list_mcp_tools_with_schema (stub_environment (Inr [search_tool]) c n r) \<noteq> []"
  by (simp add: list_mcp_tools_with_schema_def stub_environment_def)

lemma stub_choice:
  "llm_tool_choice_str stub_lib (stub_environment t (Inr c) n r) uq = c"
  by (simp add: llm_tool_choice_str_def ask_openai_def stub_environment_def)

section \<open>The catalog\<close>

text \<open>
  C3. When the tool-listing call raises or yields no tools, the catalog fetch returns the
  empty catalog and the turn answers exactly
  "Error: Could not retrieve tools from the MCP server."; the only call made is the
  listing itself, so neither the oracle nor a tool is called.
\<close>

theorem catalog_unavailable:
  assumes "(\<exists>e. list_tools E = Inl e) \<or> list_tools E = Inr []"
  shows "list_mcp_tools_with_schema E = [] \<and>
         process_user_query L E uq =
           (Some ''Error: Could not retrieve tools from the MCP server.'', [ListTools])"
proof -
  from assms have "list_mcp_tools_with_schema E = []"
    by (auto simp: list_mcp_tools_with_schema_def)
  then show ?thesis
    by (simp add: process_user_query_no_catalog)
qed

theorem catalog_unavailable_witness:
  "process_user_query stub_lib
     (stub_environment (Inr []) (Inl (Exc OtherException ''unreachable'')) (Inr None) (Inr []))
     ''What is the capital of France?'' =
     (Some ''Error: Could not retrieve tools from the MCP server.'', [ListTools]) \<and>
   list_mcp_tools_with_schema
     (stub_environment (Inl (Exc OtherException ''All connection attempts failed''))
        (Inr None) (Inr None) (Inr [])) = []"
  using catalog_unavailable
          [of "stub_environment (Inr []) (Inl (Exc OtherException ''unreachable'')) (Inr None) (Inr [])"
              stub_lib "''What is the capital of France?''"]
        catalog_unavailable
          [of "stub_environment (Inl (Exc OtherException ''All connection attempts failed''))
                 (Inr None) (Inr None) (Inr [])"]
  by (simp add: stub_environment_def)

text \<open>
  C7, as the specification words it, fails: a tool whose \<^verbatim>\<open>inputSchema\<close> is present but
  is not an object, and whose \<^verbatim>\<open>parameters\<close> is an object, gets the schema \<open>{}\<close>, not
  the \<^verbatim>\<open>parameters\<close> object.
\<close>

theorem parameter_schema_counterexample:
  "parameter_schema_for_llm
     \<lparr>name = ''t'', description = None, inputSchema = Some (J (JStr ''object'')),
      parameters = Some (Value (J (JObj [(''type'', JStr ''object'')])))\<rparr> = [] \<and>
   spec_parameter_schema
     \<lparr>name = ''t'', description = None, inputSchema = Some (J (JStr ''object'')),
      parameters = Some (Value (J (JObj [(''type'', JStr ''object'')])))\<rparr> =
     [(''type'', JStr ''object'')]"
  by (simp add: parameter_schema_for_llm_def spec_parameter_schema_def)

text \<open>
  C7, amended. The schema is the \<^verbatim>\<open>inputSchema\<close> attribute when that is an object; it is
  \<open>{}\<close> when \<^verbatim>\<open>inputSchema\<close> is present, not \<^verbatim>\<open>None\<close> and not an object, whatever
  \<^verbatim>\<open>parameters\<close> holds; only when \<^verbatim>\<open>inputSchema\<close> is absent or \<^verbatim>\<open>None\<close> is \<^verbatim>\<open>parameters\<close>
  consulted (the schema of a model class, or the object itself), with \<open>{}\<close> as the
  default. Outside the second case this is the chain of the specification. A tool with
  neither attribute gets \<open>{}\<close> and is listed in the catalog with it.
\<close>

theorem parameter_schema_amended:
  "(inputSchema t = None \<or> inputSchema t = Some (J JNull) \<or> (\<exists>d. inputSchema t = Some (J (JObj d)))
      \<longrightarrow> parameter_schema_for_llm t = spec_parameter_schema t) \<and>
   (inputSchema t \<noteq> None \<and> inputSchema t \<noteq> Some (J JNull) \<and> (\<forall>d. inputSchema t \<noteq> Some (J (JObj d)))
      \<longrightarrow> parameter_schema_for_llm t = []) \<and>
   (inputSchema t = None \<and> parameters t = None \<longrightarrow>
      parameter_schema_for_llm t = [] \<and>
      (list_tools E = Inr ts \<and> t \<in> set ts \<longrightarrow>
         JObj [(''name'', JStr (name t)),
               (''description'', (case description t of None \<Rightarrow> JNull | Some d \<Rightarrow> JStr d)),
               (''parameters_schema'', JObj [])] \<in> set (list_mcp_tools_with_schema E)))"
proof (intro conjI impI)
  assume "inputSchema t = None \<or> inputSchema t = Some (J JNull) \<or> (\<exists>d. inputSchema t = Some (J (JObj d)))"
  then show "parameter_schema_for_llm t = spec_parameter_schema t"
    by (auto simp: parameter_schema_for_llm_def spec_parameter_schema_def
        split: option.splits params_attr.splits pyval.splits json.splits)
next
  assume "inputSchema t \<noteq> None \<and> inputSchema t \<noteq> Some (J JNull) \<and> (\<forall>d. inputSchema t \<noteq> Some (J (JObj d)))"
  then show "parameter_schema_for_llm t = []"
    by (auto simp: parameter_schema_for_llm_def split: option.splits pyval.splits json.splits)
next
  assume "inputSchema t = None \<and> parameters t = None"
  then show "parameter_schema_for_llm t = []"
    by (simp add: parameter_schema_for_llm_def)
next
  assume both: "inputSchema t = None \<and> parameters t = None"
     and h: "list_tools E = Inr ts \<and> t \<in> set ts"
  from both have "parameter_schema_for_llm t = []"
    by (simp add: parameter_schema_for_llm_def)
  then have entry: "tool_data t =
      JObj [(''name'', JStr (name t)),
            (''description'', (case description t of None \<Rightarrow> JNull | Some d \<Rightarrow> JStr d)),
            (''parameters_schema'', JObj [])]"
    by (simp add: tool_data_def)
  from h have "ts \<noteq> []" by auto
  with h have "list_mcp_tools_with_schema E = map tool_data ts"
    by (simp add: list_mcp_tools_with_schema_def)
  with h have "tool_data t \<in> set (list_mcp_tools_with_schema E)"
    by simp
  with entry show "JObj [(''name'', JStr (name t)),
               (''description'', (case description t of None \<Rightarrow> JNull | Some d \<Rightarrow> JStr d)),
               (''parameters_schema'', JObj [])] \<in> set (list_mcp_tools_with_schema E)"
    by simp
qed

theorem parameter_schema_amended_witness:
  "parameter_schema_for_llm search_tool = [(''type'', JStr ''object'')] \<and>
   parameter_schema_for_llm (search_tool\<lparr>inputSchema := Some (J (JInt 3))\<rparr>) = [] \<and>
   parameter_schema_for_llm (search_tool\<lparr>inputSchema := None\<rparr>) = [] \<and>
   JObj [(''name'', JStr ''tavily_search''),
         (''description'', JStr ''This tool performs web searches''),
         (''parameters_schema'', JObj [])]
     \<in> set (list_mcp_tools_with_schema
              (stub_environment (Inr [search_tool\<lparr>inputSchema := None\<rparr>]) (Inr None) (Inr None) (Inr [])))"
  using parameter_schema_amended [of search_tool]
        parameter_schema_amended [of "search_tool\<lparr>inputSchema := Some (J (JInt 3))\<rparr>"]
        parameter_schema_amended
          [of "search_tool\<lparr>inputSchema := None\<rparr>"
              "stub_environment (Inr [search_tool\<lparr>inputSchema := None\<rparr>]) (Inr None) (Inr None) (Inr [])"
              "[search_tool\<lparr>inputSchema := None\<rparr>]"]
  by (simp add: search_tool_def stub_environment_def spec_parameter_schema_def)

section \<open>Selection\<close>

text \<open>
  C4, as the specification words it, fails: a selection text that writes a number as
  \<^verbatim>\<open>NaN\<close> is not valid JSON, yet \<^verbatim>\<open>json.loads\<close> accepts it; the selection is parsed, the
  tool is called with it and the result is narrated.
\<close>

theorem selection_parse_error_counterexample:
  "\<not> valid_json nan_selection \<and>
   process_user_query stub_lib
     (stub_environment (Inr [search_tool]) (Inr (Some nan_selection))
        (Inr (Some ''Here is what I found.'')) (Inr [text_content ''AI news summary...'']))
     ''search for recent AI news'' =
     (Some ''Here is what I found.'',
      [ListTools,
       ChatCompletion system_prompt_tool_selection
         (selection_user_prompt stub_lib
            (stub_environment (Inr [search_tool]) (Inr (Some nan_selection))
               (Inr (Some ''Here is what I found.'')) (Inr [text_content ''AI news summary...'']))
            ''search for recent AI news''),
       CallTool (JStr ''tavily_search'') [(''max_results'', JFloat NaN)],
       ChatCompletion system_prompt_summarize
         (user_prompt_summarize stub_lib ''search for recent AI news'' (JStr ''tavily_search'')
            (JObj [(''max_results'', JFloat NaN)]) (J (JStr ''AI news summary...'')))])"
proof -
  let ?E = "stub_environment (Inr [search_tool]) (Inr (Some nan_selection))
              (Inr (Some ''Here is what I found.'')) (Inr [text_content ''AI news summary...''])"
  have invalid: "\<not> valid_json nan_selection"
    by code_simp
  have choice: "parse_tool_choice stub_lib (Some nan_selection) =
      Inr (JStr ''tavily_search'', JObj [(''max_results'', JFloat NaN)])"
    by (simp add: parse_tool_choice_def py_json_loads_def stub_lib_def stub_loads_def
        nan_selection_def dict_get_def)
  have normalized: "tool_output_for_llm stub_lib [text_content ''AI news summary...''] =
      Inr (J (JStr ''AI news summary...''))"
    by (simp add: tool_output_for_llm_def text_content_def)
  have called: "call_mcp_tool stub_lib ?E (JStr ''tavily_search'')
      (JObj [(''max_results'', JFloat NaN)]) =
      (Inr (J (JStr ''AI news summary...'')),
       [CallTool (JStr ''tavily_search'') [(''max_results'', JFloat NaN)]])"
    by (simp add: call_mcp_tool_def stub_environment_def normalized)
  have narrated: "ask_openai ?E system_prompt_summarize p = Some ''Here is what I found.''" for p
    by (simp add: ask_openai_def stub_environment_def selection_prompt_not_summarize)
  have "process_user_query stub_lib ?E ''search for recent AI news'' =
     (Some ''Here is what I found.'',
      [ListTools,
       ChatCompletion system_prompt_tool_selection
         (selection_user_prompt stub_lib ?E ''search for recent AI news''),
       CallTool (JStr ''tavily_search'') [(''max_results'', JFloat NaN)],
       ChatCompletion system_prompt_summarize
         (user_prompt_summarize stub_lib ''search for recent AI news'' (JStr ''tavily_search'')
            (JObj [(''max_results'', JFloat NaN)]) (J (JStr ''AI news summary...'')))])"
    by (simp add: process_user_query_catalog stub_catalog stub_choice choice
        selection_events_def called narrated)
  with invalid show ?thesis
    by blast
qed

text \<open>
  C4, amended. When \<^verbatim>\<open>json.loads\<close> raises on the oracle's text for the selection, the turn
  ends with a parse-error message that ends with the raw text; for \<^verbatim>\<open>JSONDecodeError\<close> it
  is "Error: LLM did not provide a valid JSON response for tool selection. LLM response:"
  followed by the raw text. The calls of the turn are the listing and the selection call:
  no tool is invoked. A text outside the JSON grammar that the parser accepts all the
  same, such as one with \<^verbatim>\<open>NaN\<close>, is not covered: it is parsed and the turn goes on.
\<close>

theorem selection_parse_error:
  assumes "list_mcp_tools_with_schema E \<noteq> []"
    and "llm_tool_choice_str L E uq = Some raw"
    and "json_loads L raw = Inl e"
  shows "process_user_query L E uq =
           (Some ((if exc_class_of e = JSONDecodeError then
                     ''Error: LLM did not provide a valid JSON response for tool selection. LLM response:\<newline>''
                   else ''Error parsing LLM tool choice: '' @ exc_str e @ ''. LLM response:\<newline>'') @ raw),
            [ListTools,
             ChatCompletion system_prompt_tool_selection (selection_user_prompt L E uq)])"
  using assms
  by (simp add: process_user_query_catalog parse_tool_choice_raises selection_events_def)

theorem selection_parse_error_witness:
  "process_user_query stub_lib
     (stub_environment (Inr [search_tool]) (Inr (Some ''I would use the search tool.''))
        (Inr None) (Inr []))
     ''search for recent AI news'' =
     (Some (''Error: LLM did not provide a valid JSON response for tool selection. LLM response:\<newline>'' @
            ''I would use the search tool.''),
      [ListTools,
       ChatCompletion system_prompt_tool_selection
         (selection_user_prompt stub_lib
            (stub_environment (Inr [search_tool]) (Inr (Some ''I would use the search tool.''))
               (Inr None) (Inr []))
            ''search for recent AI news'')])"
proof -
  let ?E = "stub_environment (Inr [search_tool]) (Inr (Some ''I would use the search tool.''))
              (Inr None) (Inr [])"
  have catalog: "list_mcp_tools_with_schema ?E \<noteq> []"
    by (rule stub_catalog)
  have raw: "llm_tool_choice_str stub_lib ?E ''search for recent AI news'' =
               Some ''I would use the search tool.''"
    by (rule stub_choice)
  have rejected: "json_loads stub_lib ''I would use the search tool.'' =
                    Inl (Exc JSONDecodeError ''Expecting value: line 1 column 1 (char 0)'')"
    by (simp add: stub_lib_def stub_loads_def)
  show ?thesis
    using selection_parse_error [OF catalog raw rejected] by simp
qed

text \<open>
  C6. When the selection's \<^verbatim>\<open>tool_name\<close> is missing, \<^verbatim>\<open>null\<close> or any other falsy value
  (the empty string among them), the turn answers with the marker
  "(No specific tool was used by the LLM for your query)" followed by the oracle's general
  answer; the calls of the turn are the listing and two oracle calls, never
  \<^verbatim>\<open>call_tool\<close>. The answer does not depend on which falsy value it was.
\<close>

theorem no_tool_fallback:
  assumes "list_mcp_tools_with_schema E \<noteq> []"
    and "llm_tool_choice_str L E uq = Some raw"
    and "json_loads L raw = Inr (JObj d)"
    and "\<not> truthy (dict_get d ''tool_name'' JNull)"
  shows "process_user_query L E uq =
           (Some (''(No specific tool was used by the LLM for your query)\<newline>LLM: '' @
                  str_opt (ask_openai E ''You are a helpful AI assistant.'' (general_answer_prompt uq))),
            [ListTools,
             ChatCompletion system_prompt_tool_selection (selection_user_prompt L E uq),
             ChatCompletion ''You are a helpful AI assistant.'' (general_answer_prompt uq)])"
  using assms
  by (simp add: process_user_query_catalog parse_tool_choice_object selection_events_def)

theorem no_tool_fallback_witness:
  "fst (process_user_query stub_lib
          (stub_environment (Inr [search_tool]) (Inr (Some null_selection))
             (Inr (Some ''Paris.'')) (Inr []))
          ''What is the capital of France?'') =
     Some (''(No specific tool was used by the LLM for your query)\<newline>LLM: '' @ ''Paris.'') \<and>
   process_user_query stub_lib
     (stub_environment (Inr [search_tool]) (Inr (Some empty_name_selection))
        (Inr (Some ''Paris.'')) (Inr []))
     ''What is the capital of France?'' =
     (Some (''(No specific tool was used by the LLM for your query)\<newline>LLM: '' @ ''Paris.''),
      [ListTools,
       ChatCompletion system_prompt_tool_selection
         (selection_user_prompt stub_lib
            (stub_environment (Inr [search_tool]) (Inr (Some empty_name_selection))
               (Inr (Some ''Paris.'')) (Inr []))
            ''What is the capital of France?''),
       ChatCompletion ''You are a helpful AI assistant.''
         (general_answer_prompt ''What is the capital of France?'')])"
proof -
  let ?N = "stub_environment (Inr [search_tool]) (Inr (Some null_selection))
              (Inr (Some ''Paris.'')) (Inr [])"
  let ?E = "stub_environment (Inr [search_tool]) (Inr (Some empty_name_selection))
              (Inr (Some ''Paris.'')) (Inr [])"
  let ?q = "''What is the capital of France?''"
  have null_raw: "llm_tool_choice_str stub_lib ?N ?q = Some null_selection"
    by (rule stub_choice)
  have null_parsed: "json_loads stub_lib null_selection =
                       Inr (JObj [(''tool_name'', JNull), (''arguments'', JObj [])])"
    by (simp add: stub_lib_def stub_loads_def null_selection_def)
  have null_falsy: "\<not> truthy (dict_get [(''tool_name'', JNull), (''arguments'', JObj [])] ''tool_name'' JNull)"
    by (simp add: dict_get_def)
  have empty_raw: "llm_tool_choice_str stub_lib ?E ?q = Some empty_name_selection"
    by (rule stub_choice)
  have empty_parsed: "json_loads stub_lib empty_name_selection =
                        Inr (JObj [(''tool_name'', JStr []), (''arguments'', JObj [])])"
    by (simp add: stub_lib_def stub_loads_def empty_name_selection_def)
  have empty_falsy: "\<not> truthy (dict_get [(''tool_name'', JStr []), (''arguments'', JObj [])] ''tool_name'' JNull)"
    by (simp add: dict_get_def)
  have general: "ask_openai (stub_environment t c (Inr (Some ''Paris.'')) r)
                   ''You are a helpful AI assistant.'' p = Some ''Paris.''" for t c r p
    by (simp add: ask_openai_def stub_environment_def selection_prompt_not_assistant)
  show ?thesis
    using no_tool_fallback [OF stub_catalog null_raw null_parsed null_falsy]
          no_tool_fallback [OF stub_catalog empty_raw empty_parsed empty_falsy]
    by (simp add: general str_opt_def)
qed

section \<open>Arguments\<close>

text \<open>
  C5. When the selection names a tool by a non-empty string and its \<^verbatim>\<open>arguments\<close> value
  is not an object, the turn ends with the message "Error: LLM provided arguments in an
  incorrect format for tool '...'. Expected a dictionary, got <class '...'>." naming the
  tool and the type received; the calls of the turn are the listing and the selection
  call, never \<^verbatim>\<open>call_tool\<close>.
\<close>

theorem malformed_arguments:
  assumes "list_mcp_tools_with_schema E \<noteq> []"
    and "llm_tool_choice_str L E uq = Some raw"
    and "json_loads L raw = Inr (JObj d)"
    and "map_of d ''tool_name'' = Some (JStr nm)"
    and "nm \<noteq> []"
    and "map_of d ''arguments'' = Some args"
    and "\<not> is_dict args"
  shows "process_user_query L E uq =
           (Some (''Error: LLM provided arguments in an incorrect format for tool '' @
                  apostrophe @ nm @ apostrophe @ ''. Expected a dictionary, got <class '' @
                  apostrophe @ json_type_name args @ apostrophe @ ''>.''),
            [ListTools,
             ChatCompletion system_prompt_tool_selection (selection_user_prompt L E uq)])"
proof -
  from assms have choice:
    "parse_tool_choice L (llm_tool_choice_str L E uq) = Inr (JStr nm, args)"
    by (simp add: parse_tool_choice_object dict_get_def)
  from \<open>\<not> is_dict args\<close> have
    "call_mcp_tool L E (JStr nm) args = (Inl (incorrect_format L (JStr nm) args), [])"
    by (cases args) (simp_all add: call_mcp_tool_def)
  with choice assms(1,5) show ?thesis
    by (simp add: process_user_query_catalog selection_events_def incorrect_format_def
        py_str_def type_repr_def)
qed

theorem malformed_arguments_witness:
  "process_user_query stub_lib
     (stub_environment (Inr [search_tool]) (Inr (Some malformed_selection)) (Inr None) (Inr []))
     ''q'' =
     (Some (''Error: LLM provided arguments in an incorrect format for tool '' @
            apostrophe @ ''x'' @ apostrophe @ ''. Expected a dictionary, got <class '' @
            apostrophe @ ''str'' @ apostrophe @ ''>.''),
      [ListTools,
       ChatCompletion system_prompt_tool_selection
         (selection_user_prompt stub_lib
            (stub_environment (Inr [search_tool]) (Inr (Some malformed_selection)) (Inr None) (Inr []))
            ''q'')])"
proof -
  let ?E = "stub_environment (Inr [search_tool]) (Inr (Some malformed_selection)) (Inr None) (Inr [])"
  have raw: "llm_tool_choice_str stub_lib ?E ''q'' = Some malformed_selection"
    by (rule stub_choice)
  have parsed: "json_loads stub_lib malformed_selection =
                  Inr (JObj [(''tool_name'', JStr ''x''), (''arguments'', JStr ''not-an-object'')])"
    by (simp add: stub_lib_def stub_loads_def malformed_selection_def)
  have nm: "map_of [(''tool_name'', JStr ''x''), (''arguments'', JStr ''not-an-object'')] ''tool_name'' =
              Some (JStr ''x'')"
    by simp
  have args: "map_of [(''tool_name'', JStr ''x''), (''arguments'', JStr ''not-an-object'')] ''arguments'' =
                Some (JStr ''not-an-object'')"
    by simp
  have "''x'' \<noteq> []" and "\<not> is_dict (JStr ''not-an-object'')"
    by simp_all
  from malformed_arguments [OF stub_catalog raw parsed nm this(1) args this(2)]
  show ?thesis by simp
qed

section \<open>Invocation\<close>

lemma call_mcp_tool_raises:
  "call_tool E tool_name arguments = Inl e \<Longrightarrow>
   call_mcp_tool L E tool_name (JObj arguments) =
     (Inl (error_executing L tool_name e), [CallTool tool_name arguments])"
  by (simp add: call_mcp_tool_def)

lemma call_mcp_tool_returns:
  "call_tool E tool_name arguments = Inr items \<Longrightarrow>
   call_mcp_tool L E tool_name (JObj arguments) =
     (case tool_output_for_llm L items of
        Inl e \<Rightarrow> Inl (error_executing L tool_name e)
      | Inr tool_output \<Rightarrow> Inr tool_output,
      [CallTool tool_name arguments])"
  by (simp add: call_mcp_tool_def split: sum.splits)

lemma tool_output_for_llm_branches:
  "tool_output_for_llm L [] = Inr (J (JStr ''Tool executed successfully but returned no content.''))"
  "getattr first ''text'' = Some t \<Longrightarrow> tool_output_for_llm L (first # rest) = Inr t"
  "getattr first ''text'' = None \<Longrightarrow> getattr first ''data'' = Some b \<Longrightarrow>
     tool_output_for_llm L (first # rest) =
       Inr (J (JStr (''[Binary data received, type: '' @ type_repr b @ '']'')))"
  "getattr first ''text'' = None \<Longrightarrow> getattr first ''data'' = None \<Longrightarrow>
     item_views L (first # rest) = Inr views \<Longrightarrow>
     tool_output_for_llm L (first # rest) = Inr (J (JStr (json_dumps L (JArr views))))"
  "getattr first ''text'' = None \<Longrightarrow> getattr first ''data'' = None \<Longrightarrow>
     item_views L (first # rest) = Inl e \<Longrightarrow>
     tool_output_for_llm L (first # rest) = Inl e"
  by (simp_all add: tool_output_for_llm_def)

lemma stub_selects_search:
  "parse_tool_choice stub_lib (Some search_selection) =
     Inr (JStr ''tavily_search'',
          JObj [(''query'', JStr ''recent AI news''), (''max_results'', JInt 5),
                (''search_depth'', JStr ''basic'')])"
  by (simp add: parse_tool_choice_def py_json_loads_def stub_lib_def stub_loads_def
      search_selection_def dict_get_def)

text \<open>
  C2, as the specification words it, fails: the answer of a turn whose \<^verbatim>\<open>call_tool\<close>
  raises names the tool and the underlying message, and nothing of the arguments the tool
  was called with.
\<close>

theorem invocation_error_counterexample:
  "process_user_query stub_lib
     (stub_environment (Inr [search_tool]) (Inr (Some search_selection))
        (Inr (Some ''Here is what I found.'')) (Inl (Exc OtherException ''Connection closed'')))
     ''search for recent AI news'' =
     (Some ''Error executing tool 'tavily_search' on MCP server: Connection closed'',
      [ListTools,
       ChatCompletion system_prompt_tool_selection
         (selection_user_prompt stub_lib
            (stub_environment (Inr [search_tool]) (Inr (Some search_selection))
               (Inr (Some ''Here is what I found.'')) (Inl (Exc OtherException ''Connection closed'')))
            ''search for recent AI news''),
       CallTool (JStr ''tavily_search'')
         [(''query'', JStr ''recent AI news''), (''max_results'', JInt 5),
          (''search_depth'', JStr ''basic'')]]) \<and>
   \<not> contains ''Error executing tool 'tavily_search' on MCP server: Connection closed''
        ''recent AI news'' \<and>
   \<not> contains ''Error executing tool 'tavily_search' on MCP server: Connection closed''
        ''max_results'' \<and>
   \<not> contains ''Error executing tool 'tavily_search' on MCP server: Connection closed''
        ''basic''"
proof -
  let ?E = "stub_environment (Inr [search_tool]) (Inr (Some search_selection))
              (Inr (Some ''Here is what I found.'')) (Inl (Exc OtherException ''Connection closed''))"
  have "call_tool ?E tn a = Inl (Exc OtherException ''Connection closed'')" for tn a
    by (simp add: stub_environment_def)
  then have "call_mcp_tool stub_lib ?E (JStr ''tavily_search'')
               (JObj [(''query'', JStr ''recent AI news''), (''max_results'', JInt 5),
                      (''search_depth'', JStr ''basic'')]) =
             (Inl (error_executing stub_lib (JStr ''tavily_search'')
                     (Exc OtherException ''Connection closed'')),
              [CallTool (JStr ''tavily_search'')
                 [(''query'', JStr ''recent AI news''), (''max_results'', JInt 5),
                  (''search_depth'', JStr ''basic'')]])"
    by (rule call_mcp_tool_raises)
  then have turn: "process_user_query stub_lib ?E ''search for recent AI news'' =
      (Some ''Error executing tool 'tavily_search' on MCP server: Connection closed'',
       [ListTools,
        ChatCompletion system_prompt_tool_selection
          (selection_user_prompt stub_lib ?E ''search for recent AI news''),
        CallTool (JStr ''tavily_search'')
          [(''query'', JStr ''recent AI news''), (''max_results'', JInt 5),
           (''search_depth'', JStr ''basic'')]])"
    by (simp add: process_user_query_catalog stub_catalog stub_choice stub_selects_search
        selection_events_def error_executing_def py_str_def apostrophe_def)
  have "\<not> contains ''Error executing tool 'tavily_search' on MCP server: Connection closed''
          ''recent AI news''"
    by simp
  moreover have "\<not> contains ''Error executing tool 'tavily_search' on MCP server: Connection closed''
          ''max_results''"
    by simp
  moreover have "\<not> contains ''Error executing tool 'tavily_search' on MCP server: Connection closed''
          ''basic''"
    by simp
  ultimately show ?thesis
    using turn by blast
qed

text \<open>
  C2, amended. When \<^verbatim>\<open>call_tool\<close> raises, the answer of the turn is the one string
  "Error executing tool '...' on MCP server: ..." made of the tool name and the message of
  the exception; the arguments are not part of it. The calls of the turn are the listing,
  the selection call and the tool call: the narration call is not made.
\<close>

theorem invocation_error:
  assumes "list_mcp_tools_with_schema E \<noteq> []"
    and "parse_tool_choice L (llm_tool_choice_str L E uq) = Inr (tool_name, JObj arguments)"
    and "truthy tool_name"
    and "call_tool E tool_name arguments = Inl e"
  shows "process_user_query L E uq =
           (Some (''Error executing tool '' @ apostrophe @ py_str L (J tool_name) @ apostrophe @
                  '' on MCP server: '' @ exc_str e),
            [ListTools,
             ChatCompletion system_prompt_tool_selection (selection_user_prompt L E uq),
             CallTool tool_name arguments])"
  using assms
  by (simp add: process_user_query_catalog call_mcp_tool_raises selection_events_def
      error_executing_def)

theorem invocation_error_witness:
  "fst (process_user_query stub_lib
          (stub_environment (Inr [search_tool]) (Inr (Some search_selection))
             (Inr (Some ''Here is what I found.'')) (Inl (Exc OtherException ''timed out'')))
          ''search for recent AI news'') =
     Some (''Error executing tool '' @ apostrophe @ ''tavily_search'' @ apostrophe @
           '' on MCP server: '' @ ''timed out'')"
proof -
  let ?E = "stub_environment (Inr [search_tool]) (Inr (Some search_selection))
              (Inr (Some ''Here is what I found.'')) (Inl (Exc OtherException ''timed out''))"
  have choice: "parse_tool_choice stub_lib (llm_tool_choice_str stub_lib ?E ''search for recent AI news'') =
      Inr (JStr ''tavily_search'',
           JObj [(''query'', JStr ''recent AI news''), (''max_results'', JInt 5),
                 (''search_depth'', JStr ''basic'')])"
    by (simp add: stub_choice stub_selects_search)
  have named: "truthy (JStr ''tavily_search'')"
    by simp
  have raised: "call_tool ?E (JStr ''tavily_search'')
                  [(''query'', JStr ''recent AI news''), (''max_results'', JInt 5),
                   (''search_depth'', JStr ''basic'')] = Inl (Exc OtherException ''timed out'')"
    by (simp add: stub_environment_def)
  show ?thesis
    using invocation_error [OF stub_catalog choice named raised]
    by (simp add: py_str_def)
qed

text \<open>
  C1. The claim fails on the code for a content item that has neither \<^verbatim>\<open>text\<close> nor
  \<^verbatim>\<open>data\<close> and whose attributes are not all JSON values, such as an embedded resource:
  \<^verbatim>\<open>json.dumps\<close> raises on its \<^verbatim>\<open>__dict__\<close>, no normalized string is produced, and the
  turn ends with the message kept for a failed tool call although the call succeeded.
\<close>

theorem fallback_view_not_serializable:
  "tool_output_for_llm L [embedded_resource] =
     Inl (Exc TypeError ''Object of type TextResourceContents is not JSON serializable'') \<and>
   process_user_query stub_lib
     (stub_environment (Inr [search_tool]) (Inr (Some search_selection))
        (Inr (Some ''Here is what I found.'')) (Inr [embedded_resource]))
     ''search for recent AI news'' =
     (Some ''Error executing tool 'tavily_search' on MCP server: Object of type TextResourceContents is not JSON serializable'',
      [ListTools,
       ChatCompletion system_prompt_tool_selection
         (selection_user_prompt stub_lib
            (stub_environment (Inr [search_tool]) (Inr (Some search_selection))
               (Inr (Some ''Here is what I found.'')) (Inr [embedded_resource]))
            ''search for recent AI news''),
       CallTool (JStr ''tavily_search'')
         [(''query'', JStr ''recent AI news''), (''max_results'', JInt 5),
          (''search_depth'', JStr ''basic'')]])"
proof -
  let ?E = "stub_environment (Inr [search_tool]) (Inr (Some search_selection))
              (Inr (Some ''Here is what I found.'')) (Inr [embedded_resource])"
  have normalized: "tool_output_for_llm L [embedded_resource] =
      Inl (Exc TypeError ''Object of type TextResourceContents is not JSON serializable'')" for L
    by (simp add: tool_output_for_llm_def embedded_resource_def item_view_def
        not_serializable_def)
  have "call_tool ?E tn a = Inr [embedded_resource]" for tn a
    by (simp add: stub_environment_def)
  then have "call_mcp_tool stub_lib ?E (JStr ''tavily_search'')
               (JObj [(''query'', JStr ''recent AI news''), (''max_results'', JInt 5),
                      (''search_depth'', JStr ''basic'')]) =
             (Inl (error_executing stub_lib (JStr ''tavily_search'')
                     (Exc TypeError ''Object of type TextResourceContents is not JSON serializable'')),
              [CallTool (JStr ''tavily_search'')
                 [(''query'', JStr ''recent AI news''), (''max_results'', JInt 5),
                  (''search_depth'', JStr ''basic'')]])"
    by (simp add: call_mcp_tool_returns normalized)
  then have "process_user_query stub_lib ?E ''search for recent AI news'' =
      (Some ''Error executing tool 'tavily_search' on MCP server: Object of type TextResourceContents is not JSON serializable'',
       [ListTools,
        ChatCompletion system_prompt_tool_selection
          (selection_user_prompt stub_lib ?E ''search for recent AI news''),
        CallTool (JStr ''tavily_search'')
          [(''query'', JStr ''recent AI news''), (''max_results'', JInt 5),
           (''search_depth'', JStr ''basic'')]])"
    by (simp add: process_user_query_catalog stub_catalog stub_choice stub_selects_search
        selection_events_def error_executing_def py_str_def apostrophe_def)
  with normalized show ?thesis
    by simp
qed

section \<open>Narration\<close>

text \<open>
  C8. The claim fails on the code when the completion of the narration call carries no
  content: \<^verbatim>\<open>ask_openai\<close> returns \<^verbatim>\<open>None\<close> and so does the turn, which is not a string.
  An oracle call that raises does become the text "Error: Could not contact OpenAI - ...".
\<close>

theorem narration_returns_none:
  "process_user_query stub_lib
     (stub_environment (Inr [search_tool]) (Inr (Some search_selection))
        (Inr None) (Inr [text_content ''AI news summary...'']))
     ''search for recent AI news'' =
     (None,
      [ListTools,
       ChatCompletion system_prompt_tool_selection
         (selection_user_prompt stub_lib
            (stub_environment (Inr [search_tool]) (Inr (Some search_selection))
               (Inr None) (Inr [text_content ''AI news summary...'']))
            ''search for recent AI news''),
       CallTool (JStr ''tavily_search'')
         [(''query'', JStr ''recent AI news''), (''max_results'', JInt 5),
          (''search_depth'', JStr ''basic'')],
       ChatCompletion system_prompt_summarize
         (user_prompt_summarize stub_lib ''search for recent AI news'' (JStr ''tavily_search'')
            (JObj [(''query'', JStr ''recent AI news''), (''max_results'', JInt 5),
                   (''search_depth'', JStr ''basic'')])
            (J (JStr ''AI news summary...'')))]) \<and>
   fst (process_user_query stub_lib
          (stub_environment (Inr [search_tool]) (Inr (Some search_selection))
             (Inl (Exc OtherException ''Connection error.'')) (Inr [text_content ''AI news summary...'']))
          ''search for recent AI news'') =
     Some ''Error: Could not contact OpenAI - Connection error.''"
proof -
  have normalized: "tool_output_for_llm L [text_content ''AI news summary...''] =
                  Inr (J (JStr ''AI news summary...''))" for L
    by (simp add: tool_output_for_llm_def text_content_def)
  have called: "call_mcp_tool stub_lib
                  (stub_environment (Inr [search_tool]) c n (Inr [text_content ''AI news summary...'']))
                  (JStr ''tavily_search'')
                  (JObj [(''query'', JStr ''recent AI news''), (''max_results'', JInt 5),
                         (''search_depth'', JStr ''basic'')]) =
                (Inr (J (JStr ''AI news summary...'')),
                 [CallTool (JStr ''tavily_search'')
                    [(''query'', JStr ''recent AI news''), (''max_results'', JInt 5),
                     (''search_depth'', JStr ''basic'')]])" for c n
    by (simp add: call_mcp_tool_def stub_environment_def normalized)
  have narrated: "ask_openai (stub_environment t c n r) system_prompt_summarize p =
                    (case n of Inl e \<Rightarrow> Some (''Error: Could not contact OpenAI - '' @ exc_str e)
                             | Inr content \<Rightarrow> content)" for t c n r p
    by (simp add: ask_openai_def stub_environment_def selection_prompt_not_summarize
        split: sum.splits)
  show ?thesis
    by (simp add: process_user_query_catalog stub_catalog stub_choice stub_selects_search
        selection_events_def called narrated)
qed

section \<open>The search tool\<close>

lemma call_mcp_tool_events:
  "CallTool tn a \<in> set (snd (call_mcp_tool L E tool_name tool_arguments)) \<Longrightarrow>
   tn = tool_name \<and> tool_arguments = JObj a"
  by (cases tool_arguments) (auto simp: call_mcp_tool_def split: sum.splits)

lemma process_user_query_call_tool:
  assumes "CallTool tn a \<in> set (snd (process_user_query L E uq))"
  shows "parse_tool_choice L (llm_tool_choice_str L E uq) = Inr (tn, JObj a)"
proof (cases "list_mcp_tools_with_schema E = []")
  case True
  with assms show ?thesis
    by (simp add: process_user_query_no_catalog)
next
  case False
  show ?thesis
  proof (cases "parse_tool_choice L (llm_tool_choice_str L E uq)")
    case (Inl message)
    with False assms show ?thesis
      by (simp add: process_user_query_catalog selection_events_def)
  next
    case (Inr choice)
    obtain tool_name tool_arguments where choice: "choice = (tool_name, tool_arguments)"
      by (cases choice)
    show ?thesis
    proof (cases "truthy tool_name")
      case False
      with \<open>list_mcp_tools_with_schema E \<noteq> []\<close> Inr choice assms show ?thesis
        by (simp add: process_user_query_catalog selection_events_def)
    next
      case True
      obtain r calls where called: "call_mcp_tool L E tool_name tool_arguments = (r, calls)"
        by (cases "call_mcp_tool L E tool_name tool_arguments")
      with True \<open>list_mcp_tools_with_schema E \<noteq> []\<close> Inr choice assms
      have "CallTool tn a \<in> set calls"
        by (cases r) (simp_all add: process_user_query_catalog selection_events_def)
      with called have "tn = tool_name \<and> tool_arguments = JObj a"
        using call_mcp_tool_events [of tn a L E tool_name tool_arguments] by simp
      with Inr choice show ?thesis
        by simp
    qed
  qed
qed

lemma tavily_search_calls:
  "snd (tavily_search S qa ma da) = snd (tavily_search_try S qa ma da)"
  by (simp add: tavily_search_def split: prod.splits sum.splits)

lemma tavily_search_try_calls:
  assumes "Search q n depth \<in> set (snd (tavily_search_try S qa ma da))"
  shows "qa = JStr q \<and> strip q \<noteq> [] \<and>
         (\<exists>m. ma = Inr m \<and> n = max 1 (min m 20)) \<and>
         depth = (if da = ''basic'' \<or> da = ''advanced'' then da else ''basic'')"
  using assms
  by (cases qa; cases ma)
     (auto simp: tavily_search_try_def Let_def split: if_splits sum.splits)

lemma tavily_search_request:
  assumes "strip q \<noteq> []" and "TAVILY_API_KEY S = Some k" and "k \<noteq> []"
  shows "tavily_search S (JStr q) (Inr m) da =
     ((case post_search S
              \<lparr>api_key = k, query = strip q,
               max_results = (if m < 1 then 1 else if 20 < m then 20 else m),
               search_depth = (if da = ''basic'' \<or> da = ''advanced'' then da else ''basic''),
               include_answer = True, include_images = False, include_raw_content = False\<rparr> of
         ResponseJson body \<Rightarrow>
           (case formatted_results body q of Inl e \<Rightarrow> handle_search_exception e | Inr r \<Rightarrow> r)
       | HTTPStatusError code text \<Rightarrow>
           [JObj [(''error'',
                   JStr (''Search failed: Search request failed: HTTP '' @ show_nat code @
                         '': '' @ text))]]
       | RequestError msg \<Rightarrow> [JObj [(''error'', JStr (''Search failed: Network error: '' @ msg))]]
       | OtherError msg \<Rightarrow> [JObj [(''error'', JStr (''Search failed: Unexpected error: '' @ msg))]]),
      [Search q (if m < 1 then 1 else if 20 < m then 20 else m)
         (if da = ''basic'' \<or> da = ''advanced'' then da else ''basic'')])"
proof -
  have clamp: "max 1 (min m 20) = (if m < 1 then 1 else if 20 < m then 20 else m)"
    by auto
  from assms have "tavily_search S (JStr q) (Inr m) da =
     ((case post_search S
              \<lparr>api_key = k, query = strip q, max_results = max 1 (min m 20),
               search_depth = (if da = ''basic'' \<or> da = ''advanced'' then da else ''basic''),
               include_answer = True, include_images = False, include_raw_content = False\<rparr> of
         ResponseJson body \<Rightarrow>
           (case formatted_results body q of Inl e \<Rightarrow> handle_search_exception e | Inr r \<Rightarrow> r)
       | HTTPStatusError code text \<Rightarrow>
           [error_object (''Search failed: Search request failed: HTTP '' @ show_nat code @ '': '' @ text)]
       | RequestError msg \<Rightarrow> [error_object (''Search failed: Network error: '' @ msg)]
       | OtherError msg \<Rightarrow> [error_object (''Search failed: Unexpected error: '' @ msg)]),
      [Search q (max 1 (min m 20)) (if da = ''basic'' \<or> da = ''advanced'' then da else ''basic'')])"
    by (auto simp: tavily_search_def tavily_search_try_def get_tavily_client_def search_def Let_def
        handle_search_exception_def isinstance_exc_def
        split: http_outcome.splits sum.splits)
  then show ?thesis
    unfolding clamp error_object_def .
qed

lemma tavily_search_no_request:
  assumes "\<not> (\<exists>q m k. qa = JStr q \<and> strip q \<noteq> [] \<and> ma = Inr m \<and> TAVILY_API_KEY S = Some k \<and> k \<noteq> [])"
    and "TAVILY_API_KEY S' = TAVILY_API_KEY S"
  shows "tavily_search S' qa ma da = tavily_search S qa ma da"
proof -
  from assms have "tavily_search_try S' qa ma da = tavily_search_try S qa ma da"
    by (cases qa; cases ma; cases "TAVILY_API_KEY S")
       (auto simp: tavily_search_try_def get_tavily_client_def Let_def)
  then show ?thesis
    by (simp add: tavily_search_def)
qed

lemma tavily_search_same_requests:
  assumes key: "TAVILY_API_KEY S' = TAVILY_API_KEY S"
    and agree: "\<And>p. 1 \<le> max_results p \<Longrightarrow> max_results p \<le> 20 \<Longrightarrow>
                  search_depth p = ''basic'' \<or> search_depth p = ''advanced'' \<Longrightarrow>
                  post_search S' p = post_search S p"
  shows "tavily_search S' qa ma da = tavily_search S qa ma da"
proof (cases "\<exists>q m k. qa = JStr q \<and> strip q \<noteq> [] \<and> ma = Inr m \<and> TAVILY_API_KEY S = Some k \<and> k \<noteq> []")
  case False
  from False key show ?thesis
    by (rule tavily_search_no_request)
next
  case True
  then obtain q m k where h: "qa = JStr q" "strip q \<noteq> []" "ma = Inr m"
      "TAVILY_API_KEY S = Some k" "k \<noteq> []"
    by blast
  let ?p = "\<lparr>api_key = k, query = strip q,
             max_results = (if m < 1 then 1 else if 20 < m then 20 else m),
             search_depth = (if da = ''basic'' \<or> da = ''advanced'' then da else ''basic''),
             include_answer = True, include_images = False, include_raw_content = False\<rparr>"
  have "post_search S' ?p = post_search S ?p"
    by (rule agree) auto
  moreover from h key have "TAVILY_API_KEY S' = Some k"
    by simp
  ultimately show ?thesis
    using h by (simp add: tavily_search_request)
qed

text \<open>
  C9. The request that \<^verbatim>\<open>tavily_search\<close> sends to the search service carries
  \<^verbatim>\<open>max_results\<close> clamped into the interval from 1 to 20 (1 for a value below 1, 20 for a
  value above 20, the value itself otherwise) and a search depth that is \<^verbatim>\<open>basic\<close> or
  \<^verbatim>\<open>advanced\<close>, \<^verbatim>\<open>basic\<close> replacing any other value: with a non-blank query and an API
  key the result is what the service answers to exactly that request, and two services
  that answer alike on every request with \<^verbatim>\<open>max_results\<close> from 1 to 20 and a depth of
  \<^verbatim>\<open>basic\<close> or \<^verbatim>\<open>advanced\<close> cannot be told apart through \<^verbatim>\<open>tavily_search\<close>, whatever
  its arguments. Every search it records has these clamped values. The core passes to
  \<^verbatim>\<open>call_tool\<close> exactly the tool name and the arguments object of the oracle's selection,
  unchanged.
\<close>

theorem search_arguments_clamped:
  "(strip q' \<noteq> [] \<and> TAVILY_API_KEY S = Some k \<and> k \<noteq> [] \<longrightarrow>
      tavily_search S (JStr q') (Inr m') da =
        ((case post_search S
                 \<lparr>api_key = k, query = strip q',
                  max_results = (if m' < 1 then 1 else if 20 < m' then 20 else m'),
                  search_depth = (if da = ''basic'' \<or> da = ''advanced'' then da else ''basic''),
                  include_answer = True, include_images = False, include_raw_content = False\<rparr> of
            ResponseJson body \<Rightarrow>
              (case formatted_results body q' of Inl e \<Rightarrow> handle_search_exception e | Inr r \<Rightarrow> r)
          | HTTPStatusError code text \<Rightarrow>
              [JObj [(''error'',
                      JStr (''Search failed: Search request failed: HTTP '' @ show_nat code @
                            '': '' @ text))]]
          | RequestError msg \<Rightarrow> [JObj [(''error'', JStr (''Search failed: Network error: '' @ msg))]]
          | OtherError msg \<Rightarrow> [JObj [(''error'', JStr (''Search failed: Unexpected error: '' @ msg))]]),
         [Search q' (if m' < 1 then 1 else if 20 < m' then 20 else m')
            (if da = ''basic'' \<or> da = ''advanced'' then da else ''basic'')])) \<and>
   (TAVILY_API_KEY S' = TAVILY_API_KEY S \<and>
    (\<forall>p. 1 \<le> max_results p \<and> max_results p \<le> 20 \<and>
         (search_depth p = ''basic'' \<or> search_depth p = ''advanced'') \<longrightarrow>
         post_search S' p = post_search S p) \<longrightarrow>
      tavily_search S' qa ma da = tavily_search S qa ma da) \<and>
   (Search q n depth \<in> set (snd (tavily_search S qa ma da)) \<longrightarrow>
      (\<exists>m. ma = Inr m \<and> n = (if m < 1 then 1 else if 20 < m then 20 else m)) \<and>
      1 \<le> n \<and> n \<le> 20 \<and>
      (depth = ''basic'' \<or> depth = ''advanced'') \<and>
      depth = (if da = ''basic'' \<or> da = ''advanced'' then da else ''basic'')) \<and>
   (CallTool tn a \<in> set (snd (process_user_query L E uq)) \<longrightarrow>
      parse_tool_choice L (llm_tool_choice_str L E uq) = Inr (tn, JObj a))"
proof (intro conjI impI)
  assume "strip q' \<noteq> [] \<and> TAVILY_API_KEY S = Some k \<and> k \<noteq> []"
  then have "strip q' \<noteq> []" and "TAVILY_API_KEY S = Some k" and "k \<noteq> []"
    by simp_all
  then show "tavily_search S (JStr q') (Inr m') da =
        ((case post_search S
                 \<lparr>api_key = k, query = strip q',
                  max_results = (if m' < 1 then 1 else if 20 < m' then 20 else m'),
                  search_depth = (if da = ''basic'' \<or> da = ''advanced'' then da else ''basic''),
                  include_answer = True, include_images = False, include_raw_content = False\<rparr> of
            ResponseJson body \<Rightarrow>
              (case formatted_results body q' of Inl e \<Rightarrow> handle_search_exception e | Inr r \<Rightarrow> r)
          | HTTPStatusError code text \<Rightarrow>
              [JObj [(''error'',
                      JStr (''Search failed: Search request failed: HTTP '' @ show_nat code @
                            '': '' @ text))]]
          | RequestError msg \<Rightarrow> [JObj [(''error'', JStr (''Search failed: Network error: '' @ msg))]]
          | OtherError msg \<Rightarrow> [JObj [(''error'', JStr (''Search failed: Unexpected error: '' @ msg))]]),
         [Search q' (if m' < 1 then 1 else if 20 < m' then 20 else m')
            (if da = ''basic'' \<or> da = ''advanced'' then da else ''basic'')])"
    by (rule tavily_search_request)
next
  assume "TAVILY_API_KEY S' = TAVILY_API_KEY S \<and>
    (\<forall>p. 1 \<le> max_results p \<and> max_results p \<le> 20 \<and>
         (search_depth p = ''basic'' \<or> search_depth p = ''advanced'') \<longrightarrow>
         post_search S' p = post_search S p)"
  then show "tavily_search S' qa ma da = tavily_search S qa ma da"
    by (intro tavily_search_same_requests) auto
next
  assume "Search q n depth \<in> set (snd (tavily_search S qa ma da))"
  then have "Search q n depth \<in> set (snd (tavily_search_try S qa ma da))"
    by (simp add: tavily_search_calls)
  from tavily_search_try_calls [OF this]
  obtain m where m: "ma = Inr m" "n = max 1 (min m 20)"
    and d: "depth = (if da = ''basic'' \<or> da = ''advanced'' then da else ''basic'')"
    by blast
  from m show "\<exists>m. ma = Inr m \<and> n = (if m < 1 then 1 else if 20 < m then 20 else m)"
    by auto
  from m show "1 \<le> n" and "n \<le> 20"
    by auto
  from d show "depth = ''basic'' \<or> depth = ''advanced''"
    by (simp split: if_splits)
  from d show "depth = (if da = ''basic'' \<or> da = ''advanced'' then da else ''basic'')" .
next
  assume "CallTool tn a \<in> set (snd (process_user_query L E uq))"
  then show "parse_tool_choice L (llm_tool_choice_str L E uq) = Inr (tn, JObj a)"
    by (rule process_user_query_call_tool)
qed

lemma stub_turn_events:
  "snd (process_user_query stub_lib
          (stub_environment (Inr [search_tool]) (Inr (Some search_selection)) n
             (Inr [text_content t]))
          uq) =
     [ListTools,
      ChatCompletion system_prompt_tool_selection
        (selection_user_prompt stub_lib
           (stub_environment (Inr [search_tool]) (Inr (Some search_selection)) n
              (Inr [text_content t]))
           uq),
      CallTool (JStr ''tavily_search'')
        [(''query'', JStr ''recent AI news''), (''max_results'', JInt 5),
         (''search_depth'', JStr ''basic'')],
      ChatCompletion system_prompt_summarize
        (user_prompt_summarize stub_lib uq (JStr ''tavily_search'')
           (JObj [(''query'', JStr ''recent AI news''), (''max_results'', JInt 5),
                  (''search_depth'', JStr ''basic'')])
           (J (JStr t)))]"
proof -
  have normalized: "tool_output_for_llm stub_lib [text_content t] = Inr (J (JStr t))"
    by (simp add: tool_output_for_llm_def text_content_def)
  have "call_mcp_tool stub_lib
          (stub_environment (Inr [search_tool]) (Inr (Some search_selection)) n
             (Inr [text_content t]))
          (JStr ''tavily_search'')
          (JObj [(''query'', JStr ''recent AI news''), (''max_results'', JInt 5),
                 (''search_depth'', JStr ''basic'')]) =
        (Inr (J (JStr t)),
         [CallTool (JStr ''tavily_search'')
            [(''query'', JStr ''recent AI news''), (''max_results'', JInt 5),
             (''search_depth'', JStr ''basic'')]])"
    by (simp add: call_mcp_tool_def stub_environment_def normalized)
  then show ?thesis
    by (simp add: process_user_query_catalog stub_catalog stub_choice stub_selects_search
        selection_events_def)
qed

theorem search_arguments_clamped_witness:
  "tavily_search (guarded_search_environment (Some ''tvly-key'') (ResponseJson search_response))
     (JStr ''recent AI news'') (Inr 50) ''deep'' =
     ([JObj [(''type'', JStr ''answer''), (''content'', JStr ''AI news summary''),
             (''query'', JStr ''recent AI news'')],
       JObj [(''type'', JStr ''result''), (''title'', JStr ''News''),
             (''url'', JStr ''https://example.org''), (''content'', JStr ''text''),
             (''score'', JFloat (Finite 3 (- 2)))]],
      [Search ''recent AI news'' 20 ''basic'']) \<and>
   tavily_search (guarded_search_environment (Some ''tvly-key'') (ResponseJson search_response))
     (JStr ''recent AI news'') (Inr (- 3)) ''advanced'' =
     tavily_search (stub_search_environment (Some ''tvly-key'') (ResponseJson search_response))
       (JStr ''recent AI news'') (Inr (- 3)) ''advanced'' \<and>
   parse_tool_choice stub_lib
     (llm_tool_choice_str stub_lib
        (stub_environment (Inr [search_tool]) (Inr (Some search_selection))
           (Inr (Some ''Here is what I found.'')) (Inr [text_content ''AI news summary...'']))
        ''search for recent AI news'') =
     Inr (JStr ''tavily_search'',
          JObj [(''query'', JStr ''recent AI news''), (''max_results'', JInt 5),
                (''search_depth'', JStr ''basic'')])"
proof -
  let ?G = "guarded_search_environment (Some ''tvly-key'') (ResponseJson search_response)"
  let ?S = "stub_search_environment (Some ''tvly-key'') (ResponseJson search_response)"
  let ?E = "stub_environment (Inr [search_tool]) (Inr (Some search_selection))
              (Inr (Some ''Here is what I found.'')) (Inr [text_content ''AI news summary...''])"
  let ?a = "[(''query'', JStr ''recent AI news''), (''max_results'', JInt 5),
             (''search_depth'', JStr ''basic'')]"
  have query: "strip ''recent AI news'' \<noteq> []"
    by (simp add: strip_def isspace_def)
  have key: "TAVILY_API_KEY ?G = Some ''tvly-key''" "TAVILY_API_KEY ?G = TAVILY_API_KEY ?S"
    by (simp_all add: guarded_search_environment_def stub_search_environment_def)
  have answered: "post_search ?G
      \<lparr>api_key = ''tvly-key'', query = strip ''recent AI news'', max_results = 20,
       search_depth = ''basic'', include_answer = True, include_images = False,
       include_raw_content = False\<rparr> = ResponseJson search_response"
    by (simp add: guarded_search_environment_def)
  have formatted: "formatted_results search_response ''recent AI news'' =
      Inr [JObj [(''type'', JStr ''answer''), (''content'', JStr ''AI news summary''),
                 (''query'', JStr ''recent AI news'')],
           JObj [(''type'', JStr ''result''), (''title'', JStr ''News''),
                 (''url'', JStr ''https://example.org''), (''content'', JStr ''text''),
                 (''score'', JFloat (Finite 3 (- 2)))]]"
    by (simp add: formatted_results_def format_answer_def format_result_def py_get_def
        py_iter_def dict_get_def search_response_def)
  have alike: "\<forall>p. 1 \<le> max_results p \<and> max_results p \<le> 20 \<and>
                   (search_depth p = ''basic'' \<or> search_depth p = ''advanced'') \<longrightarrow>
                   post_search ?G p = post_search ?S p"
    by (simp add: guarded_search_environment_def stub_search_environment_def)
  have called: "CallTool (JStr ''tavily_search'') ?a
                  \<in> set (snd (process_user_query stub_lib ?E ''search for recent AI news''))"
    by (simp add: stub_turn_events)
  have first: "tavily_search ?G (JStr ''recent AI news'') (Inr 50) ''deep'' =
     ([JObj [(''type'', JStr ''answer''), (''content'', JStr ''AI news summary''),
             (''query'', JStr ''recent AI news'')],
       JObj [(''type'', JStr ''result''), (''title'', JStr ''News''),
             (''url'', JStr ''https://example.org''), (''content'', JStr ''text''),
             (''score'', JFloat (Finite 3 (- 2)))]],
      [Search ''recent AI news'' 20 ''basic''])"
    using search_arguments_clamped
            [where S = ?G and q' = "''recent AI news''" and k = "''tvly-key''" and m' = 50
               and da = "''deep''" and S' = ?G and qa = "JStr ''recent AI news''" and ma = "Inr 50"
               and q = "''recent AI news''" and n = 20 and depth = "''basic''"
               and tn = "JStr ''tavily_search''" and a = ?a and L = stub_lib and E = ?E
               and uq = "''search for recent AI news''"]
          query key(1)
    by (simp add: answered formatted)
  have second: "tavily_search ?G (JStr ''recent AI news'') (Inr (- 3)) ''advanced'' =
                tavily_search ?S (JStr ''recent AI news'') (Inr (- 3)) ''advanced''"
    using search_arguments_clamped
            [where S = ?S and S' = ?G and qa = "JStr ''recent AI news''" and ma = "Inr (- 3)"
               and da = "''advanced''" and q' = "[]" and k = "[]" and m' = 0
               and q = "[]" and n = 0 and depth = "[]"
               and tn = "JNull" and a = "[]" and L = stub_lib and E = ?E and uq = "[]"]
          key(2) alike
    by blast
  have third: "parse_tool_choice stub_lib
      (llm_tool_choice_str stub_lib ?E ''search for recent AI news'') =
      Inr (JStr ''tavily_search'', JObj ?a)"
    using search_arguments_clamped
            [where S = ?S and S' = ?G and qa = "JStr ''recent AI news''" and ma = "Inr (- 3)"
               and da = "''advanced''" and q' = "[]" and k = "[]" and m' = 0
               and q = "[]" and n = 0 and depth = "[]"
               and tn = "JStr ''tavily_search''" and a = ?a and L = stub_lib and E = ?E
               and uq = "''search for recent AI news''"]
          called
    by blast
  from first second third show ?thesis
    by blast
qed

section \<open>Failures of the search tool\<close>

lemma search_raises:
  "search S k q n depth = Inl e \<Longrightarrow> exc_class_of e = TavilySearchError"
  by (auto simp: search_def split: if_splits http_outcome.splits)

lemma tavily_search_result:
  "fst (tavily_search S qa ma da) =
     (case fst (tavily_search_try S qa ma da) of
        Inl e \<Rightarrow> handle_search_exception e
      | Inr r \<Rightarrow> r)"
  by (simp add: tavily_search_def split: prod.splits sum.splits)

lemma show_nat_401: "show_nat 401 = ''401''"
  by code_simp
text \<open>
  C10. \<^verbatim>\<open>tavily_search\<close> returns a list for every input. Whatever exception the body
  raises becomes a list of one object with the key \<^verbatim>\<open>error\<close>: "Search failed: ..." for a
  \<^verbatim>\<open>TavilySearchError\<close>, "Configuration error: ..." for a \<^verbatim>\<open>ValueError\<close>, "Unexpected
  error: ..." for any other. A query that is not a string or is blank, a missing API key
  and a failed search each give such a list; when nothing is raised the result is what
  the body returns.
\<close>

theorem tavily_search_never_raises:
  "(fst (tavily_search_try S qa ma da) = Inl e \<longrightarrow>
      fst (tavily_search S qa ma da) =
        [JObj [(''error'',
                JStr ((if exc_class_of e = TavilySearchError then ''Search failed: ''
                       else if exc_class_of e = ValueError \<or> exc_class_of e = JSONDecodeError
                       then ''Configuration error: ''
                       else ''Unexpected error: '') @ exc_str e))]]) \<and>
   (fst (tavily_search_try S qa ma da) = Inr r \<longrightarrow> fst (tavily_search S qa ma da) = r) \<and>
   (\<not> is_str qa \<or> (\<exists>b. qa = JStr b \<and> strip b = []) \<longrightarrow>
      fst (tavily_search S qa ma da) =
        [JObj [(''error'', JStr ''Query parameter is required and must be a non-empty string'')]]) \<and>
   (strip q \<noteq> [] \<and> (TAVILY_API_KEY S = None \<or> TAVILY_API_KEY S = Some []) \<longrightarrow>
      fst (tavily_search S (JStr q) (Inr m) da) =
        [JObj [(''error'',
                JStr ''Configuration error: TAVILY_API_KEY environment variable is required'')]]) \<and>
   (strip q \<noteq> [] \<and> get_tavily_client S = Inr k \<and>
    search S k q (max 1 (min m 20))
      (if da = ''basic'' \<or> da = ''advanced'' then da else ''basic'') = Inl x \<longrightarrow>
      fst (tavily_search S (JStr q) (Inr m) da) =
        [JObj [(''error'', JStr (''Search failed: '' @ exc_str x))]])"
proof (intro conjI impI)
  assume "fst (tavily_search_try S qa ma da) = Inl e"
  then show "fst (tavily_search S qa ma da) =
        [JObj [(''error'',
                JStr ((if exc_class_of e = TavilySearchError then ''Search failed: ''
                       else if exc_class_of e = ValueError \<or> exc_class_of e = JSONDecodeError
                       then ''Configuration error: ''
                       else ''Unexpected error: '') @ exc_str e))]]"
    by (auto simp: tavily_search_result handle_search_exception_def isinstance_exc_def
        error_object_def)
next
  assume "fst (tavily_search_try S qa ma da) = Inr r"
  then show "fst (tavily_search S qa ma da) = r"
    by (simp add: tavily_search_result)
next
  assume "\<not> is_str qa \<or> (\<exists>b. qa = JStr b \<and> strip b = [])"
  then have "fst (tavily_search_try S qa ma da) =
      Inr [error_object ''Query parameter is required and must be a non-empty string'']"
    by (cases qa) (auto simp: tavily_search_try_def)
  then show "fst (tavily_search S qa ma da) =
        [JObj [(''error'', JStr ''Query parameter is required and must be a non-empty string'')]]"
    by (simp add: tavily_search_result error_object_def)
next
  assume "strip q \<noteq> [] \<and> (TAVILY_API_KEY S = None \<or> TAVILY_API_KEY S = Some [])"
  then have "fst (tavily_search_try S (JStr q) (Inr m) da) =
      Inl (Exc ValueError ''TAVILY_API_KEY environment variable is required'')"
    by (auto simp: tavily_search_try_def get_tavily_client_def Let_def)
  then show "fst (tavily_search S (JStr q) (Inr m) da) =
        [JObj [(''error'',
                JStr ''Configuration error: TAVILY_API_KEY environment variable is required'')]]"
    by (simp add: tavily_search_result handle_search_exception_def isinstance_exc_def
        error_object_def)
next
  assume h: "strip q \<noteq> [] \<and> get_tavily_client S = Inr k \<and>
    search S k q (max 1 (min m 20))
      (if da = ''basic'' \<or> da = ''advanced'' then da else ''basic'') = Inl x"
  then have "exc_class_of x = TavilySearchError"
    by (auto dest: search_raises)
  moreover from h have "fst (tavily_search_try S (JStr q) (Inr m) da) = Inl x"
    by (auto simp: tavily_search_try_def Let_def)
  ultimately show "fst (tavily_search S (JStr q) (Inr m) da) =
        [JObj [(''error'', JStr (''Search failed: '' @ exc_str x))]]"
    by (simp add: tavily_search_result handle_search_exception_def isinstance_exc_def
        error_object_def)
qed

theorem tavily_search_never_raises_witness:
  "fst (tavily_search (stub_search_environment (Some ''tvly-key'') (ResponseJson search_response))
          (JInt 5) (Inr 5) ''basic'') =
     [JObj [(''error'', JStr ''Query parameter is required and must be a non-empty string'')]] \<and>
   fst (tavily_search (stub_search_environment None (ResponseJson search_response))
          (JStr ''recent AI news'') (Inr 5) ''basic'') =
     [JObj [(''error'',
             JStr ''Configuration error: TAVILY_API_KEY environment variable is required'')]] \<and>
   fst (tavily_search (stub_search_environment (Some ''tvly-key'') (HTTPStatusError 401 ''Unauthorized''))
          (JStr ''recent AI news'') (Inr 5) ''basic'') =
     [JObj [(''error'', JStr ''Search failed: Search request failed: HTTP 401: Unauthorized'')]] \<and>
   fst (tavily_search (stub_search_environment (Some ''tvly-key'') (ResponseJson (JArr [])))
          (JStr ''recent AI news'') (Inl (Exc TypeError ''int() argument must be a number'')) ''basic'') =
     [JObj [(''error'', JStr ''Unexpected error: int() argument must be a number'')]]"
proof -
  let ?S = "stub_search_environment (Some ''tvly-key'') (ResponseJson search_response)"
  let ?N = "stub_search_environment None (ResponseJson search_response)"
  let ?H = "stub_search_environment (Some ''tvly-key'') (HTTPStatusError 401 ''Unauthorized'')"
  let ?A = "stub_search_environment (Some ''tvly-key'') (ResponseJson (JArr []))"
  let ?x = "Exc TavilySearchError ''Search request failed: HTTP 401: Unauthorized''"
  let ?t = "Exc TypeError ''int() argument must be a number''"
  have query: "strip ''recent AI news'' \<noteq> []" "strip ''recent AI news'' = ''recent AI news''"
    by (simp_all add: strip_def isspace_def)
  have not_string: "\<not> is_str (JInt 5) \<or> (\<exists>b. JInt 5 = JStr b \<and> strip b = [])"
    by simp
  have no_key: "strip ''recent AI news'' \<noteq> [] \<and>
                (TAVILY_API_KEY ?N = None \<or> TAVILY_API_KEY ?N = Some [])"
    by (simp add: query stub_search_environment_def)
  have refused: "strip ''recent AI news'' \<noteq> [] \<and> get_tavily_client ?H = Inr ''tvly-key'' \<and>
      search ?H ''tvly-key'' ''recent AI news'' (max 1 (min 5 20))
        (if ''basic'' = ''basic'' \<or> ''basic'' = ''advanced'' then ''basic'' else ''basic'') = Inl ?x"
    by (simp add: query get_tavily_client_def search_def stub_search_environment_def show_nat_401)
  have conversion: "fst (tavily_search_try ?A (JStr ''recent AI news'') (Inl ?t) ''basic'') = Inl ?t"
    by (simp add: tavily_search_try_def query)
  show ?thesis
    using tavily_search_never_raises
            [where S = ?S and qa = "JInt 5" and ma = "Inr 5" and da = "''basic''"
               and e = ?t and r = "[]" and q = "''recent AI news''" and m = 5
               and k = "''tvly-key''" and x = ?x]
          tavily_search_never_raises
            [where S = ?N and qa = "JInt 5" and ma = "Inr 5" and da = "''basic''"
               and e = ?t and r = "[]" and q = "''recent AI news''" and m = 5
               and k = "''tvly-key''" and x = ?x]
          tavily_search_never_raises
            [where S = ?H and qa = "JInt 5" and ma = "Inr 5" and da = "''basic''"
               and e = ?t and r = "[]" and q = "''recent AI news''" and m = 5
               and k = "''tvly-key''" and x = ?x]
          tavily_search_never_raises
            [where S = ?A and qa = "JStr ''recent AI news''" and ma = "Inl ?t" and da = "''basic''"
               and e = ?t and r = "[]" and q = "''recent AI news''" and m = 5
               and k = "''tvly-key''" and x = ?x]
          not_string no_key refused conversion
    by simp
qed

end
